theory Spec2Isabelle
  imports Complex_Main "HOL-Library.Product_Lexorder"
begin

section \<open>Python values\<close>

text \<open>
  The parameter dictionaries of the program are \<^verbatim>\<open>Dict[str, Any]\<close>. The values that
  occur in them are \<^verbatim>\<open>None\<close>, booleans, integers, floats and strings. Floats are
  modelled by real numbers: rounding errors of the binary representation are not part of
  the model.
\<close>

datatype pval = PNone | PBool bool | PInt int | PFloat real | PStr string

datatype py_error =
  TypeError | ValueError | AttributeError | ZeroDivisionError | KeyError | ConnectionError

text \<open>The numeric reading of a value; \<^verbatim>\<open>bool\<close> is a subclass of \<^verbatim>\<open>int\<close>.\<close>

fun num_of :: "pval \<Rightarrow> real option" where
  "num_of (PBool b) = Some (if b then 1 else 0)"
| "num_of (PInt i) = Some (of_int i)"
| "num_of (PFloat r) = Some r"
| "num_of PNone = None"
| "num_of (PStr s) = None"

text \<open>Python's \<^verbatim>\<open>==\<close> on these values: numbers compare by value across the numeric types.\<close>

fun py_eq :: "pval \<Rightarrow> pval \<Rightarrow> bool" where
  "py_eq PNone PNone = True"
| "py_eq (PStr s) (PStr t) = (s = t)"
| "py_eq a b = (case (num_of a, num_of b) of (Some x, Some y) \<Rightarrow> x = y | _ \<Rightarrow> False)"

text \<open>Exceptions are the left values of a sum; \<open>ebind\<close> runs the next statement.\<close>

definition ebind :: "'e + 'a \<Rightarrow> ('a \<Rightarrow> 'e + 'b) \<Rightarrow> 'e + 'b" where
  "ebind m f = (case m of Inl e \<Rightarrow> Inl e | Inr x \<Rightarrow> f x)"

text \<open>
  \<^verbatim>\<open>float(s)\<close> and \<^verbatim>\<open>int(s)\<close> on a string are the interpreter's parsers.
  They are arguments of the model: \<open>None\<close> is the \<^verbatim>\<open>ValueError\<close> of a string that
  does not parse.
\<close>

record builtins =
  str_float :: "string \<Rightarrow> real option"
  str_int :: "string \<Rightarrow> int option"

text \<open>\<^verbatim>\<open>int(x)\<close> on a float truncates towards zero.\<close>

definition trunc :: "real \<Rightarrow> int" where
  "trunc r = (if 0 \<le> r then \<lfloor>r\<rfloor> else \<lceil>r\<rceil>)"

section \<open>Defect detection: quality score (vibe\_print/camera/detector.py)\<close>

datatype DefectType =
  LAYER_SHIFT | STRINGING | WARPING | BLOB | UNDER_EXTRUSION | OVER_EXTRUSION
  | POOR_ADHESION | SPAGHETTI | NOZZLE_CLOG | LAYER_SEPARATION

datatype Severity = INFO | WARNING | CRITICAL

record DetectedDefect =
  defect_type :: DefectType
  severity :: Severity
  confidence :: real

record DetectionResult =
  frame_analyzed :: bool
  defects :: "DetectedDefect list"
  print_quality_score :: real

text \<open>The loop of \<^verbatim>\<open>_calculate_quality_score\<close>, with the running score as accumulator.\<close>

fun score_loop :: "real \<Rightarrow> DetectedDefect list \<Rightarrow> real" where
  "score_loop score [] = score"
| "score_loop score (defect # rest) =
     (if severity defect = CRITICAL then score_loop (score - 40 * confidence defect) rest
      else if severity defect = WARNING then score_loop (score - 20 * confidence defect) rest
      else score_loop (score - 5 * confidence defect) rest)"

definition calculate_quality_score :: "DetectedDefect list \<Rightarrow> real" where
  "calculate_quality_score ds = max 0 (score_loop 100 ds)"

definition has_critical_defects :: "DetectionResult \<Rightarrow> bool" where
  "has_critical_defects r = list_ex (\<lambda>d. severity d = CRITICAL) (defects r)"

definition should_pause :: "DetectionResult \<Rightarrow> bool" where
  "should_pause r = (has_critical_defects r \<or> print_quality_score r < 30)"

text \<open>The result that \<^verbatim>\<open>analyze_frame\<close> assembles from the detected defects.\<close>

definition detection_result :: "DetectedDefect list \<Rightarrow> DetectionResult" where
  "detection_result ds =
     \<lparr>frame_analyzed = True, defects = ds, print_quality_score = calculate_quality_score ds\<rparr>"

text \<open>The deduction table of the specification, for comparison with the code.\<close>

fun severity_weight :: "Severity \<Rightarrow> real" where
  "severity_weight CRITICAL = 40"
| "severity_weight WARNING = 20"
| "severity_weight INFO = 5"

definition scenario_defects :: "DetectedDefect list" where
  "scenario_defects =
     [\<lparr>defect_type = SPAGHETTI, severity = CRITICAL, confidence = 1\<rparr>,
      \<lparr>defect_type = STRINGING, severity = INFO, confidence = 4 / 10\<rparr>]"


section \<open>Iteration store (bambustudio\_mcp/iteration/tracker.py)\<close>

text \<open>The string values of the \<^verbatim>\<open>DefectType\<close> enumeration.\<close>

fun defect_value :: "DefectType \<Rightarrow> string" where
  "defect_value LAYER_SHIFT = ''layer_shift''"
| "defect_value STRINGING = ''stringing''"
| "defect_value WARPING = ''warping''"
| "defect_value BLOB = ''blob''"
| "defect_value UNDER_EXTRUSION = ''under_extrusion''"
| "defect_value OVER_EXTRUSION = ''over_extrusion''"
| "defect_value POOR_ADHESION = ''poor_adhesion''"
| "defect_value SPAGHETTI = ''spaghetti''"
| "defect_value NOZZLE_CLOG = ''nozzle_clog''"
| "defect_value LAYER_SEPARATION = ''layer_separation''"

text \<open>Points in time (\<^verbatim>\<open>datetime\<close>) are natural numbers; the clock is an argument.\<close>

type_synonym datetime = nat

record PrintIteration =
  iteration_id :: string
  model_name :: string
  model_path :: string
  created_at :: datetime
  original_dimensions :: "(string \<rightharpoonup> real) option"
  scale_factor :: "real option"
  scaled_dimensions :: "(string \<rightharpoonup> real) option"
  parameters :: "(string \<times> pval) list option"
  preset_name :: "string option"
  it_status :: string
  it_started_at :: "datetime option"
  it_completed_at :: "datetime option"
  print_time_minutes :: "int option"
  quality_score :: "real option"
  defects_detected :: "string list"
  defect_count :: nat
  it_notes :: string
  improvement_suggestions :: "string list"

text \<open>
  A row of the table \<^verbatim>\<open>iterations\<close>. The column \<^verbatim>\<open>data\<close> holds the JSON text of
  the record; the model keeps the record that this text decodes to. The table is keyed by
  its primary key \<^verbatim>\<open>iteration_id\<close>.
\<close>

record iteration_row =
  row_model_name :: string
  row_model_path :: string
  row_created_at :: datetime
  row_data :: PrintIteration

type_synonym iteration_db = "string \<rightharpoonup> iteration_row"

definition get_iteration :: "iteration_db \<Rightarrow> string \<Rightarrow> PrintIteration option" where
  "get_iteration db ident = (case db ident of None \<Rightarrow> None | Some row \<Rightarrow> Some (row_data row))"

text \<open>\<^verbatim>\<open>UPDATE iterations SET data = ? WHERE iteration_id = ?\<close>: no row, no change.\<close>

definition update_iteration :: "iteration_db \<Rightarrow> PrintIteration \<Rightarrow> iteration_db" where
  "update_iteration db iteration =
     (case db (iteration_id iteration) of
        None \<Rightarrow> db
      | Some row \<Rightarrow> db(iteration_id iteration \<mapsto> row\<lparr>row_data := iteration\<rparr>))"

text \<open>The degree sign of the source's messages, as its two UTF-8 bytes.\<close>

definition degree_sign :: string where
  "degree_sign = [char_of (194::nat), char_of (176::nat)]"

definition generate_suggestions :: "string list \<Rightarrow> string list" where
  "generate_suggestions ds =
     (if defect_value LAYER_SHIFT \<in> set ds then
        [''Check belt tension and mechanical stability'', ''Reduce print speed'',
         ''Ensure printer is on stable surface''] else []) @
     (if defect_value STRINGING \<in> set ds then
        [''Increase retraction distance (try +0.5mm)'',
         ''Increase retraction speed (try +10mm/s)'',
         ''Lower nozzle temperature (try -5'' @ degree_sign @ ''C)''] else []) @
     (if defect_value WARPING \<in> set ds then
        [''Increase bed temperature (try +5'' @ degree_sign @ ''C)'',
         ''Add or increase brim width'', ''Use enclosure if available'',
         ''Slow down first layer''] else []) @
     (if defect_value BLOB \<in> set ds then
        [''Enable coasting in slicer'', ''Reduce extrusion multiplier slightly'',
         ''Adjust seam position''] else []) @
     (if defect_value SPAGHETTI \<in> set ds then
        [''Check bed adhesion - clean and level bed'', ''Increase first layer height'',
         ''Slow down first layer significantly'',
         ''Use brim or raft for better adhesion''] else []) @
     (if defect_value UNDER_EXTRUSION \<in> set ds then
        [''Increase flow rate/extrusion multiplier'', ''Check for clogged nozzle'',
         ''Increase nozzle temperature''] else []) @
     (if defect_value OVER_EXTRUSION \<in> set ds then
        [''Decrease flow rate/extrusion multiplier'', ''Calibrate E-steps''] else [])"

text \<open>
  \<^verbatim>\<open>record_outcome\<close> returns the updated record (or \<^verbatim>\<open>None\<close>) and leaves the
  database in a new state; \<open>defs\<close> is the optional argument \<^verbatim>\<open>defects\<close>.
\<close>

definition record_outcome ::
  "datetime \<Rightarrow> iteration_db \<Rightarrow> string \<Rightarrow> string \<Rightarrow> real option \<Rightarrow> string list option \<Rightarrow>
   string \<Rightarrow> int option \<Rightarrow> PrintIteration option \<times> iteration_db" where
  "record_outcome now db ident st quality defs nts minutes =
     (case get_iteration db ident of
        None \<Rightarrow> (None, db)
      | Some iteration \<Rightarrow>
          let ds = (case defs of None \<Rightarrow> [] | Some l \<Rightarrow> l);
              iteration' = iteration
                \<lparr>it_status := st,
                 it_completed_at := Some now,
                 quality_score := quality,
                 defects_detected := ds,
                 defect_count := length ds,
                 it_notes := nts,
                 print_time_minutes := minutes,
                 improvement_suggestions := generate_suggestions ds\<rparr>
          in (Some iteration', update_iteration db iteration'))"

definition example_iteration :: PrintIteration where
  "example_iteration =
     \<lparr>iteration_id = ''a1b2c3d4'', model_name = ''foo'', model_path = ''foo.stl'',
      created_at = 1, original_dimensions = None, scale_factor = None,
      scaled_dimensions = None, parameters = None, preset_name = None,
      it_status = ''pending'', it_started_at = None, it_completed_at = None,
      print_time_minutes = None, quality_score = None, defects_detected = [],
      defect_count = 0, it_notes = [], improvement_suggestions = []\<rparr>"

definition example_db :: iteration_db where
  "example_db =
     [''a1b2c3d4'' \<mapsto> \<lparr>row_model_name = ''foo'', row_model_path = ''foo.stl'',
        row_created_at = 1, row_data = example_iteration\<rparr>]"


section \<open>Printer status (bambustudio\_mcp/printer/status.py)\<close>

text \<open>A decoded JSON document; an object is the association list of its members.\<close>

datatype json =
  JNull | JBool bool | JInt int | JFloat real | JStr string
  | JArr "json list" | JObj "(string \<times> json) list"

datatype PrinterState =
  IDLE | PRINTING | PAUSED | FINISHED | FAILED | PREPARING | SLICING | UNKNOWN

datatype GcodeState = G_IDLE | G_RUNNING | G_PAUSE | G_FINISH | G_FAILED | G_UNKNOWN

record TemperatureReading =
  current :: real
  target :: real

record PrintProgress =
  percentage :: real
  layer_current :: int
  layer_total :: int
  time_elapsed_minutes :: int
  time_remaining_minutes :: int
  pp_gcode_state :: GcodeState

record PrinterStatus =
  connected :: bool
  last_update :: "datetime option"
  state :: PrinterState
  gcode_state :: GcodeState
  st_nozzle_temp :: "TemperatureReading option"
  st_bed_temp :: "TemperatureReading option"
  chamber_temp :: "real option"
  progress :: PrintProgress
  gcode_file :: json
  subtask_name :: json
  print_type :: json
  fan_speed_percent :: int
  speed_level :: int
  wifi_signal :: int
  print_error :: int
  hw_switch_state :: int
  raw_report :: "(string \<times> json) list"

text \<open>\<^verbatim>\<open>d.get(k, dflt)\<close>; \<^verbatim>\<open>d.get(k)\<close> is \<open>dict_get d k JNull\<close>.\<close>

definition dict_get :: "(string \<times> json) list \<Rightarrow> string \<Rightarrow> json \<Rightarrow> json" where
  "dict_get d k dflt = (case map_of d k of None \<Rightarrow> dflt | Some v \<Rightarrow> v)"

text \<open>\<^verbatim>\<open>GcodeState(x)\<close>: the member with that value, \<open>None\<close> for its \<^verbatim>\<open>ValueError\<close>.\<close>

fun gcode_state_of :: "json \<Rightarrow> GcodeState option" where
  "gcode_state_of (JStr s) =
     (if s = ''IDLE'' then Some G_IDLE
      else if s = ''RUNNING'' then Some G_RUNNING
      else if s = ''PAUSE'' then Some G_PAUSE
      else if s = ''FINISH'' then Some G_FINISH
      else if s = ''FAILED'' then Some G_FAILED
      else if s = ''UNKNOWN'' then Some G_UNKNOWN
      else None)"
| "gcode_state_of _ = None"

fun state_map :: "GcodeState \<Rightarrow> PrinterState" where
  "state_map G_IDLE = IDLE"
| "state_map G_RUNNING = PRINTING"
| "state_map G_PAUSE = PAUSED"
| "state_map G_FINISH = FINISHED"
| "state_map G_FAILED = FAILED"
| "state_map G_UNKNOWN = UNKNOWN"

fun py_float :: "builtins \<Rightarrow> json \<Rightarrow> py_error + real" where
  "py_float B JNull = Inl TypeError"
| "py_float B (JBool b) = Inr (if b then 1 else 0)"
| "py_float B (JInt i) = Inr (of_int i)"
| "py_float B (JFloat r) = Inr r"
| "py_float B (JStr s) = (case str_float B s of None \<Rightarrow> Inl ValueError | Some r \<Rightarrow> Inr r)"
| "py_float B (JArr xs) = Inl TypeError"
| "py_float B (JObj kv) = Inl TypeError"

fun py_int :: "builtins \<Rightarrow> json \<Rightarrow> py_error + int" where
  "py_int B JNull = Inl TypeError"
| "py_int B (JBool b) = Inr (if b then 1 else 0)"
| "py_int B (JInt i) = Inr i"
| "py_int B (JFloat r) = Inr (trunc r)"
| "py_int B (JStr s) = (case str_int B s of None \<Rightarrow> Inl ValueError | Some i \<Rightarrow> Inr i)"
| "py_int B (JArr xs) = Inl TypeError"
| "py_int B (JObj kv) = Inl TypeError"

text \<open>A reading is built when both of its fields are present and not null.\<close>

definition temperature_reading ::
  "builtins \<Rightarrow> json \<Rightarrow> json \<Rightarrow> py_error + TemperatureReading option" where
  "temperature_reading B temp tgt =
     (if temp \<noteq> JNull \<and> tgt \<noteq> JNull then
        ebind (py_float B temp) (\<lambda>c. ebind (py_float B tgt) (\<lambda>t.
          Inr (Some \<lparr>current = c, target = t\<rparr>)))
      else Inr None)"

definition chamber_reading :: "builtins \<Rightarrow> json \<Rightarrow> py_error + real option" where
  "chamber_reading B temp =
     (if temp \<noteq> JNull then ebind (py_float B temp) (\<lambda>c. Inr (Some c)) else Inr None)"

text \<open>
  The body of \<^verbatim>\<open>from_mqtt_report\<close> once \<^verbatim>\<open>print_data\<close> is known to be a dictionary,
  statement by statement; every conversion may raise.
\<close>

definition parse_print_data ::
  "builtins \<Rightarrow> datetime \<Rightarrow> (string \<times> json) list \<Rightarrow> (string \<times> json) list \<Rightarrow>
   py_error + PrinterStatus" where
  "parse_print_data B now report pd =
     (let gs = (case gcode_state_of (dict_get pd ''gcode_state'' (JStr ''UNKNOWN'')) of
                  None \<Rightarrow> G_UNKNOWN | Some g \<Rightarrow> g)
      in
      ebind (temperature_reading B (dict_get pd ''nozzle_temper'' JNull)
               (dict_get pd ''nozzle_target_temper'' JNull)) (\<lambda>nozzle.
      ebind (temperature_reading B (dict_get pd ''bed_temper'' JNull)
               (dict_get pd ''bed_target_temper'' JNull)) (\<lambda>bed.
      ebind (chamber_reading B (dict_get pd ''chamber_temper'' JNull)) (\<lambda>chamber.
      ebind (py_float B (dict_get pd ''mc_percent'' (JInt 0))) (\<lambda>pct.
      ebind (py_int B (dict_get pd ''layer_num'' (JInt 0))) (\<lambda>lnum.
      ebind (py_int B (dict_get pd ''total_layer_num'' (JInt 0))) (\<lambda>ltotal.
      ebind (py_int B (dict_get pd ''mc_print_time'' (JInt 0))) (\<lambda>elapsed.
      ebind (py_int B (dict_get pd ''mc_remaining_time'' (JInt 0))) (\<lambda>remaining.
      ebind (py_int B (dict_get pd ''cooling_fan_speed'' (JInt 0))) (\<lambda>fan.
      ebind (py_int B (dict_get pd ''spd_lvl'' (JInt 1))) (\<lambda>spd.
      ebind (py_int B (dict_get pd ''wifi_signal'' (JInt 0))) (\<lambda>wifi.
      ebind (py_int B (dict_get pd ''print_error'' (JInt 0))) (\<lambda>perr.
      ebind (py_int B (dict_get pd ''hw_switch_state'' (JInt 0))) (\<lambda>hw.
        Inr \<lparr>connected = True,
             last_update = Some now,
             state = state_map gs,
             gcode_state = gs,
             st_nozzle_temp = nozzle,
             st_bed_temp = bed,
             chamber_temp = chamber,
             progress = \<lparr>percentage = pct, layer_current = lnum, layer_total = ltotal,
               time_elapsed_minutes = elapsed div 60, time_remaining_minutes = remaining,
               pp_gcode_state = gs\<rparr>,
             gcode_file = dict_get pd ''gcode_file'' JNull,
             subtask_name = dict_get pd ''subtask_name'' JNull,
             print_type = dict_get pd ''print_type'' JNull,
             fan_speed_percent = fan,
             speed_level = spd,
             wifi_signal = wifi,
             print_error = perr,
             hw_switch_state = hw,
             raw_report = report\<rparr>))))))))))))))"

text \<open>
  \<^verbatim>\<open>print_data = report.get("print", {})\<close>; the first \<^verbatim>\<open>print_data.get\<close> raises
  \<^verbatim>\<open>AttributeError\<close> when the value is not a dictionary.
\<close>

definition from_mqtt_report ::
  "builtins \<Rightarrow> datetime \<Rightarrow> (string \<times> json) list \<Rightarrow> py_error + PrinterStatus" where
  "from_mqtt_report B now report =
     (case dict_get report ''print'' (JObj []) of
        JObj pd \<Rightarrow> parse_print_data B now report pd
      | _ \<Rightarrow> Inl AttributeError)"

text \<open>What the claims about the parser speak of: numbers, and fields that may be left out.\<close>

fun numeric :: "json \<Rightarrow> bool" where
  "numeric (JBool b) = True"
| "numeric (JInt i) = True"
| "numeric (JFloat r) = True"
| "numeric _ = False"

definition field_numeric :: "(string \<times> json) list \<Rightarrow> string \<Rightarrow> bool" where
  "field_numeric pd k = (case map_of pd k of None \<Rightarrow> True | Some v \<Rightarrow> numeric v)"

definition field_temperature :: "(string \<times> json) list \<Rightarrow> string \<Rightarrow> bool" where
  "field_temperature pd k =
     (case map_of pd k of None \<Rightarrow> True | Some v \<Rightarrow> v = JNull \<or> numeric v)"

definition well_typed_print_data :: "(string \<times> json) list \<Rightarrow> bool" where
  "well_typed_print_data pd =
     (list_all (field_temperature pd)
        [''nozzle_temper'', ''nozzle_target_temper'', ''bed_temper'', ''bed_target_temper'',
         ''chamber_temper''] \<and>
      list_all (field_numeric pd)
        [''mc_percent'', ''layer_num'', ''total_layer_num'', ''mc_print_time'',
         ''mc_remaining_time'', ''cooling_fan_speed'', ''spd_lvl'', ''wifi_signal'',
         ''print_error'', ''hw_switch_state''])"

definition no_parsers :: builtins where
  "no_parsers = \<lparr>str_float = (\<lambda>s. None), str_int = (\<lambda>s. None)\<rparr>"

text \<open>The values that the conversions give on numbers.\<close>

fun json_real :: "json \<Rightarrow> real" where
  "json_real (JBool b) = (if b then 1 else 0)"
| "json_real (JInt i) = of_int i"
| "json_real (JFloat r) = r"
| "json_real _ = 0"

fun json_int :: "json \<Rightarrow> int" where
  "json_int (JBool b) = (if b then 1 else 0)"
| "json_int (JInt i) = i"
| "json_int (JFloat r) = trunc r"
| "json_int _ = 0"

definition example_report :: "(string \<times> json) list" where
  "example_report =
     [(''print'', JObj [(''gcode_state'', JStr ''SLICING''), (''mc_percent'', JInt 42),
        (''nozzle_temper'', JFloat 215), (''bed_temper'', JNull)])]"

section \<open>Printer controller (bambustudio\_mcp/printer/controller.py)\<close>

record PrintJob =
  job_id :: string
  file_path :: string
  file_name :: string
  submitted_at :: datetime
  started_at :: "datetime option"
  completed_at :: "datetime option"
  status :: string
  progress_percent :: real
  error_message :: "string option"

text \<open>
  The controller's state: whether the broker session is connected (\<^verbatim>\<open>send_command\<close>
  raises \<^verbatim>\<open>ConnectionError\<close> when it is not), the last status and the current job.
\<close>

record PrinterController =
  mqtt_connected :: bool
  current_status :: "PrinterStatus option"
  current_job :: "PrintJob option"

text \<open>Decimal rendering of an integer, as an f-string does it.\<close>

function str_nat :: "nat \<Rightarrow> string" where
  "str_nat n =
     (if n < 10 then [''0123456789'' ! n]
      else str_nat (n div 10) @ [''0123456789'' ! (n mod 10)])"
  by pat_completeness auto
termination
  by (relation "measure id") auto

declare str_nat.simps [simp del]

definition str_of_int :: "int \<Rightarrow> string" where
  "str_of_int i = (if i < 0 then ''-'' @ str_nat (nat (- i)) else str_nat (nat i))"

text \<open>
  \<^verbatim>\<open>_handle_status_update\<close>: the three tests on the parsed state run one after the
  other on the job as the previous one left it. The registered callbacks are the
  caller's and are not part of the model.
\<close>

definition on_printing :: "datetime \<Rightarrow> PrinterStatus \<Rightarrow> PrintJob \<Rightarrow> PrintJob" where
  "on_printing now st job =
     (if state st = PRINTING then
        job\<lparr>progress_percent := percentage (progress st),
            status := ''printing'',
            started_at := (case started_at job of None \<Rightarrow> Some now | Some t \<Rightarrow> Some t)\<rparr>
      else job)"

definition on_finished :: "datetime \<Rightarrow> PrinterStatus \<Rightarrow> PrintJob \<Rightarrow> PrintJob" where
  "on_finished now st job =
     (if state st = FINISHED then
        job\<lparr>status := ''completed'', progress_percent := 100, completed_at := Some now\<rparr>
      else job)"

definition on_failed :: "PrinterStatus \<Rightarrow> PrintJob \<Rightarrow> PrintJob" where
  "on_failed st job =
     (if state st = FAILED then
        job\<lparr>status := ''failed'',
            error_message := Some (''Print error code: '' @ str_of_int (print_error st))\<rparr>
      else job)"

definition handle_status_update ::
  "builtins \<Rightarrow> datetime \<Rightarrow> (string \<times> json) list \<Rightarrow> PrinterController \<Rightarrow>
   py_error + PrinterController" where
  "handle_status_update B now report c =
     ebind (from_mqtt_report B now report) (\<lambda>st.
       Inr (c\<lparr>current_status := Some st,
              current_job :=
                map_option (\<lambda>job. on_failed st (on_finished now st (on_printing now st job)))
                  (current_job c)\<rparr>))"

definition pause_print :: "PrinterController \<Rightarrow> py_error + bool \<times> PrinterController" where
  "pause_print c =
     (case current_job c of
        None \<Rightarrow> Inr (False, c)
      | Some job \<Rightarrow>
          if \<not> mqtt_connected c then Inl ConnectionError
          else Inr (True, c\<lparr>current_job := Some (job\<lparr>status := ''paused''\<rparr>)\<rparr>))"

definition resume_print :: "PrinterController \<Rightarrow> py_error + bool \<times> PrinterController" where
  "resume_print c =
     (case current_job c of
        None \<Rightarrow> Inr (False, c)
      | Some job \<Rightarrow>
          if status job \<noteq> ''paused'' then Inr (False, c)
          else if \<not> mqtt_connected c then Inl ConnectionError
          else Inr (True, c\<lparr>current_job := Some (job\<lparr>status := ''printing''\<rparr>)\<rparr>))"

definition stop_print ::
  "datetime \<Rightarrow> PrinterController \<Rightarrow> py_error + bool \<times> PrinterController" where
  "stop_print now c =
     (case current_job c of
        None \<Rightarrow> Inr (False, c)
      | Some job \<Rightarrow>
          if \<not> mqtt_connected c then Inl ConnectionError
          else Inr (True, c\<lparr>current_job :=
                 Some (job\<lparr>status := ''cancelled'', completed_at := Some now\<rparr>)\<rparr>))"

definition finished_job :: PrintJob where
  "finished_job =
     \<lparr>job_id = ''0a1b2c3d'', file_path = ''/tmp/part.3mf'', file_name = ''part.3mf'',
      submitted_at = 1, started_at = Some 2, completed_at = Some 9,
      status = ''completed'', progress_percent = 100, error_message = None\<rparr>"

definition finished_controller :: PrinterController where
  "finished_controller =
     \<lparr>mqtt_connected = True, current_status = None, current_job = Some finished_job\<rparr>"

section \<open>Filament profiles (bambustudio\_mcp/materials/filaments.py)\<close>

text \<open>
  The members of \<^verbatim>\<open>FilamentType\<close>. \<open>TPE\<close> is the member that the optimizer of
  \<^verbatim>\<open>vibe_print\<close> names besides these; no profile of the registry below has it.
\<close>

datatype FilamentType = PLA | PETG | PC | TPU | ABS | ASA | NYLON | PLA_CF | PETG_CF | TPE

datatype FlexRating = RIGID | SEMI_RIGID | SEMI_FLEX | FLEXIBLE

record TemperatureRange =
  min_temp :: int
  optimal :: int
  max_temp :: int

text \<open>The fields of a profile that the modelled functions read.\<close>

record FilamentProfile =
  name :: string
  brand :: string
  material_type :: FilamentType
  nozzle_temp :: TemperatureRange
  bed_temp :: TemperatureRange
  max_print_speed :: real
  max_volumetric_flow :: real
  retraction_length :: real
  retraction_speed :: real
  flex_rating :: FlexRating
  ams_compatible :: bool

definition is_flexible :: "FilamentProfile \<Rightarrow> bool" where
  "is_flexible m = (flex_rating m = FLEXIBLE \<or> flex_rating m = SEMI_FLEX)"

definition filament_type :: "FilamentProfile \<Rightarrow> FilamentType" where
  "filament_type m = material_type m"

definition BAMBU_PLA :: FilamentProfile where
  "BAMBU_PLA =
     \<lparr>name = ''Bambu Basic PLA'', brand = ''Bambu Lab'', material_type = PLA,
      nozzle_temp = \<lparr>min_temp = 190, optimal = 220, max_temp = 230\<rparr>,
      bed_temp = \<lparr>min_temp = 45, optimal = 55, max_temp = 65\<rparr>,
      max_print_speed = 300, max_volumetric_flow = 21,
      retraction_length = 8 / 10, retraction_speed = 30,
      flex_rating = RIGID, ams_compatible = True\<rparr>"

definition BAMBU_PETG_TRANSLUCENT :: FilamentProfile where
  "BAMBU_PETG_TRANSLUCENT =
     \<lparr>name = ''Bambu PETG Translucent'', brand = ''Bambu Lab'', material_type = PETG,
      nozzle_temp = \<lparr>min_temp = 230, optimal = 245, max_temp = 260\<rparr>,
      bed_temp = \<lparr>min_temp = 70, optimal = 80, max_temp = 90\<rparr>,
      max_print_speed = 200, max_volumetric_flow = 12,
      retraction_length = 6 / 10, retraction_speed = 25,
      flex_rating = RIGID, ams_compatible = True\<rparr>"

definition PRUSA_PC_BLEND :: FilamentProfile where
  "PRUSA_PC_BLEND =
     \<lparr>name = ''Prusament PC Blend'', brand = ''Prusa'', material_type = PC,
      nozzle_temp = \<lparr>min_temp = 265, optimal = 275, max_temp = 285\<rparr>,
      bed_temp = \<lparr>min_temp = 100, optimal = 110, max_temp = 115\<rparr>,
      max_print_speed = 150, max_volumetric_flow = 8,
      retraction_length = 6 / 10, retraction_speed = 25,
      flex_rating = RIGID, ams_compatible = True\<rparr>"

definition GENERIC_PETG :: FilamentProfile where
  "GENERIC_PETG =
     \<lparr>name = ''Generic PETG'', brand = ''Generic'', material_type = PETG,
      nozzle_temp = \<lparr>min_temp = 220, optimal = 240, max_temp = 260\<rparr>,
      bed_temp = \<lparr>min_temp = 70, optimal = 80, max_temp = 90\<rparr>,
      max_print_speed = 150, max_volumetric_flow = 10,
      retraction_length = 8 / 10, retraction_speed = 25,
      flex_rating = RIGID, ams_compatible = True\<rparr>"

definition GENERIC_TPU_95A :: FilamentProfile where
  "GENERIC_TPU_95A =
     \<lparr>name = ''Generic TPU 95A'', brand = ''Generic'', material_type = TPU,
      nozzle_temp = \<lparr>min_temp = 210, optimal = 230, max_temp = 240\<rparr>,
      bed_temp = \<lparr>min_temp = 30, optimal = 45, max_temp = 60\<rparr>,
      max_print_speed = 40, max_volumetric_flow = 32 / 10,
      retraction_length = 5 / 10, retraction_speed = 20,
      flex_rating = SEMI_FLEX, ams_compatible = False\<rparr>"

definition FILAMENT_PROFILES :: "(string \<times> FilamentProfile) list" where
  "FILAMENT_PROFILES =
     [(''bambu_pla'', BAMBU_PLA),
      (''bambu_basic_pla'', BAMBU_PLA),
      (''bambu_petg'', BAMBU_PETG_TRANSLUCENT),
      (''bambu_petg_translucent'', BAMBU_PETG_TRANSLUCENT),
      (''prusa_pc'', PRUSA_PC_BLEND),
      (''prusa_pc_blend'', PRUSA_PC_BLEND),
      (''prusament_pc'', PRUSA_PC_BLEND),
      (''generic_petg'', GENERIC_PETG),
      (''petg'', GENERIC_PETG),
      (''generic_tpu'', GENERIC_TPU_95A),
      (''tpu_95a'', GENERIC_TPU_95A),
      (''tpu'', GENERIC_TPU_95A)]"

text \<open>\<^verbatim>\<open>name.lower().replace(" ", "_").replace("-", "_")\<close> on the bytes of an ASCII name.\<close>

definition lower_char :: "char \<Rightarrow> char" where
  "lower_char c =
     (let n = (of_char c :: nat) in if 65 \<le> n \<and> n \<le> 90 then char_of (n + 32) else c)"

definition profile_key :: "string \<Rightarrow> string" where
  "profile_key s =
     map (\<lambda>c. if c = CHR '' '' \<or> c = CHR ''-'' then CHR ''_'' else c) (map lower_char s)"

definition get_filament_profile :: "string \<Rightarrow> FilamentProfile option" where
  "get_filament_profile s = map_of FILAMENT_PROFILES (profile_key s)"

section \<open>Slicing recipe (bambustudio\_mcp/wizard/slicing\_review.py)\<close>

datatype QualityPreset = DRAFT | STANDARD | QUALITY | ULTRA

datatype PrintUseCase = DECORATIVE | FUNCTIONAL | PROTOTYPE | GIFT

record quality_settings =
  layer_height_ratio :: real
  wall_loops :: int
  infill_density :: int
  speed_factor :: real

fun QUALITY_SETTINGS :: "QualityPreset \<Rightarrow> quality_settings" where
  "QUALITY_SETTINGS DRAFT =
     \<lparr>layer_height_ratio = 7 / 10, wall_loops = 2, infill_density = 15, speed_factor = 12 / 10\<rparr>"
| "QUALITY_SETTINGS STANDARD =
     \<lparr>layer_height_ratio = 5 / 10, wall_loops = 3, infill_density = 20, speed_factor = 1\<rparr>"
| "QUALITY_SETTINGS QUALITY =
     \<lparr>layer_height_ratio = 35 / 100, wall_loops = 4, infill_density = 25, speed_factor = 8 / 10\<rparr>"
| "QUALITY_SETTINGS ULTRA =
     \<lparr>layer_height_ratio = 25 / 100, wall_loops = 5, infill_density = 30, speed_factor = 6 / 10\<rparr>"

text \<open>\<^verbatim>\<open>round(x)\<close>: to the nearest integer, a tie to the even one.\<close>

definition py_round :: "real \<Rightarrow> int" where
  "py_round r =
     (let f = \<lfloor>r\<rfloor> in
      if r - of_int f < 1 / 2 then f
      else if 1 / 2 < r - of_int f then f + 1
      else if even f then f else f + 1)"

text \<open>\<^verbatim>\<open>sub in s\<close> on strings.\<close>

fun contains :: "string \<Rightarrow> string \<Rightarrow> bool" where
  "contains [] sub = (sub = [])"
| "contains (c # cs) sub = (take (length sub) (c # cs) = sub \<or> contains cs sub)"

type_synonym params = "string \<rightharpoonup> pval"

text \<open>The settings that depend on the material, written when the profile is known.\<close>

definition material_settings :: "FilamentProfile \<Rightarrow> quality_settings \<Rightarrow> params \<Rightarrow> params" where
  "material_settings m qs settings =
     (let max_speed = max_print_speed m * speed_factor qs in
      settings
        (''nozzle_temp'' \<mapsto> PInt (optimal (nozzle_temp m)),
         ''bed_temp'' \<mapsto> PInt (optimal (bed_temp m)),
         ''outer_wall_speed'' \<mapsto> PInt (min (trunc (max_speed * (6 / 10))) 80),
         ''inner_wall_speed'' \<mapsto> PInt (min (trunc (max_speed * (8 / 10))) 120),
         ''infill_speed'' \<mapsto> PInt (min (trunc max_speed) 150),
         ''retraction_length'' \<mapsto> PFloat (retraction_length m),
         ''retraction_speed'' \<mapsto> PFloat (retraction_speed m)))"

text \<open>
  \<^verbatim>\<open>get_recommended_settings\<close>. The nozzle profile that the source looks up is not
  used by it.
\<close>

definition get_recommended_settings ::
  "string \<Rightarrow> real \<Rightarrow> QualityPreset \<Rightarrow> PrintUseCase \<Rightarrow> params" where
  "get_recommended_settings material nozzle_diameter quality use_case =
     (let material_profile = get_filament_profile material;
          qs = QUALITY_SETTINGS quality;
          layer_height = of_int (py_round (nozzle_diameter * layer_height_ratio qs / (4 / 100)))
                           * (4 / 100);
          base_walls = (if use_case = FUNCTIONAL then max (wall_loops qs) 4 else wall_loops qs);
          base_infill =
            (if use_case = FUNCTIONAL then max (infill_density qs) 25
             else if use_case = PROTOTYPE then min (infill_density qs) 15
             else infill_density qs);
          s1 = Map.empty
            (''layer_height'' \<mapsto> PFloat layer_height,
             ''wall_loops'' \<mapsto> PInt base_walls,
             ''sparse_infill_density'' \<mapsto> PInt base_infill,
             ''sparse_infill_pattern'' \<mapsto>
               (if use_case = FUNCTIONAL then PStr ''gyroid'' else PStr ''grid''));
          s2 = (case material_profile of None \<Rightarrow> s1 | Some m \<Rightarrow> material_settings m qs s1);
          s3 = s2
            (''initial_layer_speed'' \<mapsto> PInt 25,
             ''initial_layer_height'' \<mapsto> PFloat (layer_height * (12 / 10)),
             ''brim_width'' \<mapsto> PInt 5)
      in case material_profile of
           None \<Rightarrow> s3
         | Some m \<Rightarrow>
             if list_ex (contains (name m)) [''PC'', ''ABS'', ''Nylon'']
             then s3(''brim_width'' \<mapsto> PInt 8) else s3)"

section \<open>Recommender (vibe\_print/iteration/recommender.py)\<close>

record Recommendation =
  parameter :: string
  current_value :: pval
  suggested_value :: pval
  reason :: string
  rec_confidence :: real
  priority :: int

text \<open>
  Arithmetic and comparison on Python numbers: the result of \<^verbatim>\<open>+\<close> and \<^verbatim>\<open>*\<close> is an
  integer when both operands are, a float otherwise; \<^verbatim>\<open>min\<close> and \<^verbatim>\<open>max\<close> return one of
  their arguments, the first one on a tie. Anything else raises \<^verbatim>\<open>TypeError\<close>.
\<close>

fun int_of :: "pval \<Rightarrow> int option" where
  "int_of (PBool b) = Some (if b then 1 else 0)"
| "int_of (PInt i) = Some i"
| "int_of _ = None"

definition py_add :: "pval \<Rightarrow> pval \<Rightarrow> py_error + pval" where
  "py_add a b =
     (case (int_of a, int_of b) of
        (Some i, Some j) \<Rightarrow> Inr (PInt (i + j))
      | _ \<Rightarrow> (case (num_of a, num_of b) of
                (Some x, Some y) \<Rightarrow> Inr (PFloat (x + y))
              | _ \<Rightarrow> Inl TypeError))"

definition py_mul :: "pval \<Rightarrow> pval \<Rightarrow> py_error + pval" where
  "py_mul a b =
     (case (int_of a, int_of b) of
        (Some i, Some j) \<Rightarrow> Inr (PInt (i * j))
      | _ \<Rightarrow> (case (num_of a, num_of b) of
                (Some x, Some y) \<Rightarrow> Inr (PFloat (x * y))
              | _ \<Rightarrow> Inl TypeError))"

definition py_min :: "pval \<Rightarrow> pval \<Rightarrow> py_error + pval" where
  "py_min a b =
     (case (num_of a, num_of b) of
        (Some x, Some y) \<Rightarrow> Inr (if y < x then b else a)
      | _ \<Rightarrow> Inl TypeError)"

definition py_max :: "pval \<Rightarrow> pval \<Rightarrow> py_error + pval" where
  "py_max a b =
     (case (num_of a, num_of b) of
        (Some x, Some y) \<Rightarrow> Inr (if x < y then b else a)
      | _ \<Rightarrow> Inl TypeError)"

definition DEFECT_ADJUSTMENTS :: "(string \<times> (string \<times> pval \<times> string) list) list" where
  "DEFECT_ADJUSTMENTS =
     [(defect_value LAYER_SHIFT,
        [(''outer_wall_speed'', PInt (- 10), ''Reduce outer wall speed to minimize vibration''),
         (''inner_wall_speed'', PInt (- 15), ''Reduce inner wall speed''),
         (''travel_speed'', PInt (- 50), ''Reduce travel speed to minimize jerky movements'')]),
      (defect_value STRINGING,
        [(''retraction_length'', PFloat (5 / 10), ''Increase retraction to reduce oozing''),
         (''retraction_speed'', PInt 5, ''Increase retraction speed''),
         (''nozzle_temperature'', PInt (- 5), ''Lower temperature reduces oozing''),
         (''travel_speed'', PInt 20, ''Faster travel gives less time to ooze'')]),
      (defect_value WARPING,
        [(''bed_temperature'', PInt 5, ''Higher bed temp improves adhesion''),
         (''bed_temperature_initial_layer'', PInt 10, ''Higher initial bed temp''),
         (''brim_width'', PInt 5, ''Larger brim for better adhesion''),
         (''initial_layer_speed'', PInt (- 10), ''Slower first layer for better adhesion'')]),
      (defect_value BLOB,
        [(''retraction_length'', PFloat (3 / 10), ''More retraction at seams''),
         (''outer_wall_speed'', PInt (- 5), ''Slower walls for cleaner seams'')]),
      (defect_value UNDER_EXTRUSION,
        [(''nozzle_temperature'', PInt 10, ''Higher temp for better flow''),
         (''sparse_infill_speed'', PInt (- 20), ''Slower infill to ensure full extrusion'')]),
      (defect_value OVER_EXTRUSION,
        [(''nozzle_temperature'', PInt (- 5), ''Lower temp to reduce flow'')]),
      (defect_value POOR_ADHESION,
        [(''bed_temperature_initial_layer'', PInt 10, ''Higher bed temp for adhesion''),
         (''initial_layer_height'', PFloat (5 / 100), ''Thicker first layer squishes better''),
         (''initial_layer_speed'', PInt (- 10), ''Slower first layer''),
         (''brim_width'', PInt 8, ''Add substantial brim'')]),
      (defect_value SPAGHETTI,
        [(''brim_width'', PInt 10, ''Significant brim needed''),
         (''initial_layer_speed'', PInt (- 15), ''Much slower first layer''),
         (''bed_temperature_initial_layer'', PInt 15, ''Higher bed temp''),
         (''initial_layer_height'', PFloat (1 / 10), ''Thicker first layer'')])]"

definition limits :: "(string \<times> pval \<times> pval) list" where
  "limits =
     [(''outer_wall_speed'', PInt 20, PInt 150),
      (''inner_wall_speed'', PInt 30, PInt 200),
      (''sparse_infill_speed'', PInt 50, PInt 300),
      (''travel_speed'', PInt 100, PInt 500),
      (''nozzle_temperature'', PInt 180, PInt 280),
      (''bed_temperature'', PInt 40, PInt 110),
      (''bed_temperature_initial_layer'', PInt 40, PInt 110),
      (''retraction_length'', PFloat (2 / 10), PFloat 5),
      (''retraction_speed'', PInt 20, PInt 80),
      (''brim_width'', PInt 0, PInt 20),
      (''initial_layer_speed'', PInt 10, PInt 50),
      (''initial_layer_height'', PFloat (1 / 10), PFloat (4 / 10)),
      (''layer_height'', PFloat (8 / 100), PFloat (32 / 100))]"

definition apply_limits :: "string \<Rightarrow> pval \<Rightarrow> py_error + pval" where
  "apply_limits param v =
     (case map_of limits param of
        Some (min_val, max_val) \<Rightarrow> ebind (py_min max_val v) (py_max min_val)
      | None \<Rightarrow> Inr v)"

definition get_defect_priority :: "string \<Rightarrow> int" where
  "get_defect_priority defect =
     (case map_of
        [(defect_value SPAGHETTI, 1), (defect_value LAYER_SHIFT, 1),
         (defect_value POOR_ADHESION, 1), (defect_value WARPING, 2),
         (defect_value UNDER_EXTRUSION, 2), (defect_value OVER_EXTRUSION, 3),
         (defect_value STRINGING, 3), (defect_value BLOB, 4)] defect of
        Some p \<Rightarrow> p | None \<Rightarrow> 5)"

text \<open>
  The current parameters are an object; \<^verbatim>\<open>getattr(current_params, param, None)\<close> reads
  the attribute of that name. The model keeps the attributes as a map from their names,
  and \<open>getattr_or_none\<close> gives \<open>PNone\<close> for a name that is not an attribute.
\<close>

definition getattr_or_none :: "params \<Rightarrow> string \<Rightarrow> pval" where
  "getattr_or_none obj a = (case obj a of None \<Rightarrow> PNone | Some v \<Rightarrow> v)"

text \<open>
  The inner loop over the adjustments of one defect. The state is the list of
  recommendations so far and the set \<^verbatim>\<open>seen_params\<close>.
\<close>

fun adjustment_loop ::
  "params \<Rightarrow> string \<Rightarrow> (string \<times> pval \<times> string) list \<Rightarrow>
   Recommendation list \<times> string set \<Rightarrow> py_error + Recommendation list \<times> string set" where
  "adjustment_loop cur defect [] st = Inr st"
| "adjustment_loop cur defect ((param, adjustment, rsn) # rest) (recs, seen) =
     (if param \<in> seen then adjustment_loop cur defect rest (recs, seen)
      else if getattr_or_none cur param = PNone
        then adjustment_loop cur defect rest (recs, insert param seen)
      else
        ebind (py_add (getattr_or_none cur param) adjustment) (\<lambda>suggested.
        ebind (apply_limits param suggested) (\<lambda>limited.
          adjustment_loop cur defect rest
            (recs @ [\<lparr>parameter = param,
                       current_value = getattr_or_none cur param,
                       suggested_value = limited,
                       reason = rsn @ '' (addressing '' @ defect @ '')'',
                       rec_confidence = 7 / 10,
                       priority = get_defect_priority defect\<rparr>],
             insert param seen))))"

fun defect_loop ::
  "params \<Rightarrow> string list \<Rightarrow> Recommendation list \<times> string set \<Rightarrow>
   py_error + Recommendation list \<times> string set" where
  "defect_loop cur [] st = Inr st"
| "defect_loop cur (defect # rest) st =
     (case map_of DEFECT_ADJUSTMENTS defect of
        None \<Rightarrow> defect_loop cur rest st
      | Some adjustments \<Rightarrow>
          ebind (adjustment_loop cur defect adjustments st) (defect_loop cur rest))"

text \<open>
  \<^verbatim>\<open>_learn_from_history\<close>. \<open>successful\<close> is the test of the list comprehension,
  \<open>max_by_quality\<close> is \<^verbatim>\<open>max(successful, key=lambda i: i.quality_score or 0)\<close>, which
  keeps the first of the largest.
\<close>

definition successful :: "PrintIteration \<Rightarrow> bool" where
  "successful i =
     (it_status i = ''completed'' \<and>
      (case quality_score i of None \<Rightarrow> False | Some q \<Rightarrow> 80 < q) \<and>
      parameters i \<noteq> None)"

definition quality_key :: "PrintIteration \<Rightarrow> real" where
  "quality_key i = (case quality_score i of None \<Rightarrow> 0 | Some q \<Rightarrow> q)"

fun max_by_quality :: "PrintIteration \<Rightarrow> PrintIteration list \<Rightarrow> PrintIteration" where
  "max_by_quality best [] = best"
| "max_by_quality best (i # rest) =
     (if quality_key best < quality_key i then max_by_quality i rest
      else max_by_quality best rest)"

definition compare_params :: "string list" where
  "compare_params = [''layer_height'', ''wall_loops'', ''sparse_infill_density'', ''outer_wall_speed'']"

definition dict_value :: "(string \<times> pval) list \<Rightarrow> string \<Rightarrow> pval" where
  "dict_value d k = (case map_of d k of None \<Rightarrow> PNone | Some v \<Rightarrow> v)"

definition history_recommendation ::
  "params \<Rightarrow> PrintIteration \<Rightarrow> (string \<times> pval) list \<Rightarrow> string \<Rightarrow> Recommendation list" where
  "history_recommendation cur best best_params param =
     (if getattr_or_none cur param \<noteq> PNone \<and> dict_value best_params param \<noteq> PNone \<and>
         \<not> py_eq (getattr_or_none cur param) (dict_value best_params param)
      then [\<lparr>parameter = param,
              current_value = getattr_or_none cur param,
              suggested_value = dict_value best_params param,
              reason = ''Value used in successful print (quality: '' @
                str_of_int (py_round (quality_key best)) @ ''%)'',
              rec_confidence = 1 / 2,
              priority = 3\<rparr>]
      else [])"

definition learn_from_history :: "params \<Rightarrow> PrintIteration list \<Rightarrow> Recommendation list" where
  "learn_from_history cur iterations =
     (case filter successful iterations of
        [] \<Rightarrow> []
      | i # rest \<Rightarrow>
          let best = max_by_quality i rest in
          (case parameters best of
             None \<Rightarrow> []
           | Some best_params \<Rightarrow>
               if best_params = [] then []
               else concat (map (history_recommendation cur best best_params) compare_params)))"

text \<open>The loop that adds the history recommendations whose parameter was not seen.\<close>

fun history_loop ::
  "Recommendation list \<Rightarrow> Recommendation list \<times> string set \<Rightarrow>
   Recommendation list \<times> string set" where
  "history_loop [] st = st"
| "history_loop (r # rest) (recs, seen) =
     (if parameter r \<notin> seen then history_loop rest (recs @ [r], insert (parameter r) seen)
      else history_loop rest (recs, seen))"

text \<open>The recommendation for a low quality score; \<open>seen_params\<close> is left as it is.\<close>

definition quality_recommendation ::
  "params \<Rightarrow> real option \<Rightarrow> Recommendation list \<times> string set \<Rightarrow>
   py_error + Recommendation list \<times> string set" where
  "quality_recommendation cur quality st =
     (case quality of
        None \<Rightarrow> Inr st
      | Some q \<Rightarrow>
          if q < 50 \<and> ''outer_wall_speed'' \<notin> snd st then
            (case cur ''outer_wall_speed'' of
               None \<Rightarrow> Inl AttributeError
             | Some speed \<Rightarrow>
                 ebind (py_mul speed (PFloat (7 / 10))) (\<lambda>slower.
                 ebind (py_max (PInt 30) slower) (\<lambda>suggested.
                   Inr (fst st @ [\<lparr>parameter = ''outer_wall_speed'',
                                   current_value = speed,
                                   suggested_value = suggested,
                                   reason = ''Significantly reduce speed for better quality'',
                                   rec_confidence = 6 / 10,
                                   priority = 2\<rparr>],
                        snd st))))
          else Inr st)"

definition sort_recommendations :: "Recommendation list \<Rightarrow> Recommendation list" where
  "sort_recommendations recs = sort_key (\<lambda>r. (priority r, - rec_confidence r)) recs"

definition get_recommendations ::
  "params \<Rightarrow> string list \<Rightarrow> real option \<Rightarrow> PrintIteration list option \<Rightarrow>
   py_error + Recommendation list" where
  "get_recommendations cur defs quality iterations =
     ebind (defect_loop cur defs ([], {})) (\<lambda>st1.
     ebind (quality_recommendation cur quality st1) (\<lambda>st2.
       let st3 = (case iterations of
                    None \<Rightarrow> st2
                  | Some its \<Rightarrow>
                      if its = [] then st2 else history_loop (learn_from_history cur its) st2)
       in Inr (sort_recommendations (fst st3))))"

definition iteration_with :: "real \<Rightarrow> (string \<times> pval) list \<Rightarrow> PrintIteration" where
  "iteration_with q ps =
     example_iteration\<lparr>it_status := ''completed'', quality_score := Some q,
       parameters := Some ps\<rparr>"

definition example_params :: params where
  "example_params =
     [''layer_height'' \<mapsto> PFloat (2 / 10), ''wall_loops'' \<mapsto> PInt 2,
      ''sparse_infill_density'' \<mapsto> PFloat 15, ''outer_wall_speed'' \<mapsto> PFloat 60]"

definition example_history :: "PrintIteration list" where
  "example_history =
     [iteration_with 85 [(''layer_height'', PFloat (2 / 10)), (''wall_loops'', PInt 3)],
      iteration_with 95 [(''layer_height'', PFloat (16 / 100)), (''wall_loops'', PInt 2)]]"

text \<open>Two successful iterations of the same quality.\<close>

definition tied_history :: "PrintIteration list" where
  "tied_history =
     [iteration_with 90 [(''wall_loops'', PInt 3)], iteration_with 90 [(''wall_loops'', PInt 4)]]"

section \<open>Parameter optimizer (vibe\_print/wizard/material\_optimizer.py)\<close>

text \<open>
  A formatted message: the text of the f-string with \<open>{}\<close> for each interpolated
  expression, and the values of these expressions.
\<close>

datatype message = Msg string "pval list"

record change =
  ch_parameter :: string
  old_value :: pval
  new_value :: pval
  ch_reason :: message

text \<open>The three lists that the optimizer object collects during one call.\<close>

record olog =
  changes :: "change list"
  warnings :: "message list"
  notes_log :: "message list"

record OptimizationResult =
  original_params :: params
  optimized_params :: params
  changes_made :: "change list"
  res_warnings :: "message list"
  res_notes :: "message list"

definition record_change :: "string \<Rightarrow> pval \<Rightarrow> pval \<Rightarrow> message \<Rightarrow> olog \<Rightarrow> olog" where
  "record_change param old new rsn L =
     (if \<not> py_eq old new
      then L\<lparr>changes := changes L @
             [\<lparr>ch_parameter = param, old_value = old, new_value = new, ch_reason = rsn\<rparr>]\<rparr>
      else L)"

definition add_warning :: "message \<Rightarrow> olog \<Rightarrow> olog" where
  "add_warning w L = L\<lparr>warnings := warnings L @ [w]\<rparr>"

definition add_note :: "message \<Rightarrow> olog \<Rightarrow> olog" where
  "add_note n L = L\<lparr>notes_log := notes_log L @ [n]\<rparr>"

text \<open>A number for a comparison or a product; \<^verbatim>\<open>TypeError\<close> for any other value.\<close>

definition num :: "pval \<Rightarrow> py_error + real" where
  "num v = (case num_of v of None \<Rightarrow> Inl TypeError | Some x \<Rightarrow> Inr x)"

text \<open>\<^verbatim>\<open>params.get(k, dflt)\<close>.\<close>

definition pget :: "params \<Rightarrow> string \<Rightarrow> pval \<Rightarrow> pval" where
  "pget p k dflt = (case p k of None \<Rightarrow> dflt | Some v \<Rightarrow> v)"

text \<open>The truth value of a Python value.\<close>

fun truthy :: "pval \<Rightarrow> bool" where
  "truthy PNone = False"
| "truthy (PBool b) = b"
| "truthy (PInt i) = (i \<noteq> 0)"
| "truthy (PFloat r) = (r \<noteq> 0)"
| "truthy (PStr s) = (s \<noteq> [])"

text \<open>\<^verbatim>\<open>round(x, 2)\<close>.\<close>

definition round2 :: "real \<Rightarrow> real" where
  "round2 x = of_int (py_round (x * 100)) / 100"

definition cubed_sign :: string where
  "cubed_sign = [char_of (194::nat), char_of (179::nat)]"

type_synonym ostate = "params \<times> olog"

subsection \<open>Rule 1: temperatures\<close>

definition nozzle_temperature_rule :: "FilamentProfile \<Rightarrow> ostate \<Rightarrow> py_error + ostate" where
  "nozzle_temperature_rule m = (\<lambda>(p, L).
     case p ''nozzle_temp'' of
       Some old_temp \<Rightarrow>
         ebind (num old_temp) (\<lambda>x.
           if x < of_int (min_temp (nozzle_temp m)) then
             Inr (p(''nozzle_temp'' \<mapsto> PInt (optimal (nozzle_temp m))),
                  record_change ''nozzle_temp'' old_temp (PInt (optimal (nozzle_temp m)))
                    (Msg (''{} requires at least {}'' @ degree_sign @ ''C'')
                       [PStr (name m), PInt (min_temp (nozzle_temp m))]) L)
           else if of_int (max_temp (nozzle_temp m)) < x then
             Inr (p(''nozzle_temp'' \<mapsto> PInt (optimal (nozzle_temp m))),
                  record_change ''nozzle_temp'' old_temp (PInt (optimal (nozzle_temp m)))
                    (Msg (''{} degrades above {}'' @ degree_sign @ ''C'')
                       [PStr (name m), PInt (max_temp (nozzle_temp m))]) L)
           else Inr (p, L))
     | None \<Rightarrow>
         Inr (p(''nozzle_temp'' \<mapsto> PInt (optimal (nozzle_temp m))),
              record_change ''nozzle_temp'' PNone (PInt (optimal (nozzle_temp m)))
                (Msg ''Set optimal temperature for {}'' [PStr (name m)]) L))"

definition bed_temperature_rule :: "FilamentProfile \<Rightarrow> ostate \<Rightarrow> py_error + ostate" where
  "bed_temperature_rule m = (\<lambda>(p, L).
     case p ''bed_temp'' of
       Some old_temp \<Rightarrow>
         ebind (num old_temp) (\<lambda>x.
           if x < of_int (min_temp (bed_temp m)) then
             Inr (p(''bed_temp'' \<mapsto> PInt (optimal (bed_temp m))),
                  record_change ''bed_temp'' old_temp (PInt (optimal (bed_temp m)))
                    (Msg (''{} needs bed at least {}'' @ degree_sign @ ''C'')
                       [PStr (name m), PInt (min_temp (bed_temp m))]) L)
           else Inr (p, L))
     | None \<Rightarrow>
         Inr (p(''bed_temp'' \<mapsto> PInt (optimal (bed_temp m))),
              record_change ''bed_temp'' PNone (PInt (optimal (bed_temp m)))
                (Msg ''Set optimal bed temperature for {}'' [PStr (name m)]) L))"

definition optimize_temperatures :: "FilamentProfile \<Rightarrow> ostate \<Rightarrow> py_error + ostate" where
  "optimize_temperatures m st = ebind (nozzle_temperature_rule m st) (bed_temperature_rule m)"

subsection \<open>Rule 2: speeds\<close>

text \<open>
  The three speed checks of the source differ in the key, the limit and the reason:
  \<^verbatim>\<open>optimal = min(old_speed, limit); if old_speed > optimal: params[key] = int(optimal)\<close>.
\<close>

definition cap_speed :: "string \<Rightarrow> real \<Rightarrow> message \<Rightarrow> ostate \<Rightarrow> py_error + ostate" where
  "cap_speed key limit rsn = (\<lambda>(p, L).
     case p key of
       Some old_speed \<Rightarrow>
         ebind (num old_speed) (\<lambda>x.
           let optimal_speed = min x limit in
           if optimal_speed < x then
             Inr (p(key \<mapsto> PInt (trunc optimal_speed)),
                  record_change key old_speed (PInt (trunc optimal_speed)) rsn L)
           else Inr (p, L))
     | None \<Rightarrow> Inr (p, L))"

definition volumetric_rule :: "FilamentProfile \<Rightarrow> real \<Rightarrow> ostate \<Rightarrow> py_error + ostate" where
  "volumetric_rule m nozzle_diameter = (\<lambda>(p, L).
     ebind (num (pget p ''layer_height'' (PFloat (2 / 10)))) (\<lambda>layer_height.
     ebind (num (pget p ''line_width'' (PFloat (nozzle_diameter * (11 / 10))))) (\<lambda>line_width.
     ebind (num (pget p ''outer_wall_speed'' (PInt 50))) (\<lambda>outer_speed.
       if max_volumetric_flow m < layer_height * line_width * outer_speed then
         if layer_height * line_width = 0 then Inl ZeroDivisionError
         else
           let safe_speed = max_volumetric_flow m / (layer_height * line_width);
               new_speed = PInt (trunc (safe_speed * (9 / 10)))
           in Inr (p(''outer_wall_speed'' \<mapsto> new_speed),
                   add_note
                     (Msg (''Volumetric flow limited to {}mm'' @ cubed_sign @ ''/s for {}'')
                        [PFloat (max_volumetric_flow m), PStr (name m)])
                     (record_change ''outer_wall_speed'' (pget p ''outer_wall_speed'' (PInt 50))
                        new_speed
                        (Msg (''Reduced to stay within {}mm'' @ cubed_sign @ ''/s flow limit'')
                           [PFloat (max_volumetric_flow m)]) L))
       else Inr (p, L)))))"

definition optimize_speeds :: "FilamentProfile \<Rightarrow> real \<Rightarrow> ostate \<Rightarrow> py_error + ostate" where
  "optimize_speeds m nozzle_diameter st =
     ebind (cap_speed ''outer_wall_speed'' (max_print_speed m * (5 / 10))
              (Msg ''{} prints better at slower outer wall speeds'' [PStr (name m)]) st) (\<lambda>st1.
     ebind (cap_speed ''inner_wall_speed'' (max_print_speed m * (7 / 10))
              (Msg ''Reduced for {} quality'' [PStr (name m)]) st1) (\<lambda>st2.
     ebind (cap_speed ''infill_speed'' (max_print_speed m)
              (Msg ''{} max speed is {}mm/s'' [PStr (name m), PFloat (max_print_speed m)]) st2)
       (volumetric_rule m nozzle_diameter)))"

subsection \<open>Rule 3: retraction\<close>

definition snap_rule ::
  "string \<Rightarrow> pval \<Rightarrow> real \<Rightarrow> real \<Rightarrow> message \<Rightarrow> ostate \<Rightarrow> py_error + ostate" where
  "snap_rule key dflt wanted tolerance rsn = (\<lambda>(p, L).
     ebind (num (pget p key dflt)) (\<lambda>x.
       if tolerance < \<bar>x - wanted\<bar> then
         Inr (p(key \<mapsto> PFloat wanted), record_change key (pget p key dflt) (PFloat wanted) rsn L)
       else Inr (p, L)))"

text \<open>
  The branch for flexible filaments; \<open>old_length\<close> is the value that
  \<^verbatim>\<open>_optimize_retraction\<close> read first.
\<close>

definition flexible_retraction_rule ::
  "FilamentProfile \<Rightarrow> pval \<Rightarrow> ostate \<Rightarrow> py_error + ostate" where
  "flexible_retraction_rule m old_length = (\<lambda>(p, L).
     if is_flexible m then
       ebind (num (pget p ''retraction_length'' (PInt 0))) (\<lambda>x.
         let L1 = add_note (Msg ''TPU: Reduce or disable retraction to prevent jams'' []) in
         if 1 < x then
           Inr (p(''retraction_length'' \<mapsto> PFloat (5 / 10)),
                L1 (record_change ''retraction_length'' old_length (PFloat (5 / 10))
                  (Msg ''Flexible filaments need minimal retraction to prevent jams'' []) L))
         else Inr (p, L1 L))
     else Inr (p, L))"

definition optimize_retraction :: "FilamentProfile \<Rightarrow> ostate \<Rightarrow> py_error + ostate" where
  "optimize_retraction m st =
     ebind (snap_rule ''retraction_length'' (PFloat (8 / 10)) (retraction_length m) (2 / 10)
              (Msg ''Optimal retraction for {}'' [PStr (name m)]) st) (\<lambda>st1.
     ebind (snap_rule ''retraction_speed'' (PInt 30) (retraction_speed m) 5
              (Msg ''Optimal retraction speed for {}'' [PStr (name m)]) st1)
       (flexible_retraction_rule m (pget (fst st) ''retraction_length'' (PFloat (8 / 10)))))"

subsection \<open>Rule 4: cooling\<close>

definition optimize_cooling :: "FilamentProfile \<Rightarrow> ostate \<Rightarrow> py_error + ostate" where
  "optimize_cooling m = (\<lambda>(p, L).
     let old_fan = pget p ''fan_speed'' (PInt 100) in
     if filament_type m = PLA then
       ebind (num old_fan) (\<lambda>x.
         if x < 80 then
           Inr (p(''fan_speed'' \<mapsto> PInt 100),
                record_change ''fan_speed'' old_fan (PInt 100)
                  (Msg ''PLA benefits from high cooling'' []) L)
         else Inr (p, L))
     else if filament_type m = PETG then
       ebind (num old_fan) (\<lambda>x.
         if 60 < x then
           Inr (p(''fan_speed'' \<mapsto> PInt 50),
                record_change ''fan_speed'' old_fan (PInt 50)
                  (Msg ''PETG needs moderate cooling to prevent brittleness'' []) L)
         else Inr (p, L))
     else if filament_type m = PC then
       ebind (num old_fan) (\<lambda>x.
         if 30 < x then
           Inr (p(''fan_speed'' \<mapsto> PInt 20, ''fan_min_layer_time'' \<mapsto> PInt 15),
                add_note (Msg ''PC: Keep fan low to prevent layer separation'' [])
                  (record_change ''fan_speed'' old_fan (PInt 20)
                     (Msg ''PC needs minimal cooling to prevent cracking'' []) L))
         else Inr (p, L))
     else if filament_type m = TPU \<or> filament_type m = TPE then
       ebind (py_min old_fan (PInt 50)) (\<lambda>new_fan.
         Inr (p(''fan_speed'' \<mapsto> new_fan),
              if \<not> py_eq old_fan new_fan
              then record_change ''fan_speed'' old_fan new_fan
                     (Msg ''TPU works best with moderate cooling'' []) L
              else L))
     else Inr (p, L))"

subsection \<open>Rule 5: adhesion\<close>

definition brim_rule :: "FilamentProfile \<Rightarrow> ostate \<Rightarrow> py_error + ostate" where
  "brim_rule m = (\<lambda>(p, L).
     let old_brim = pget p ''brim_width'' (PInt 5) in
     if filament_type m = PC \<or> filament_type m = ABS then
       ebind (num old_brim) (\<lambda>x.
         if x < 8 then
           Inr (p(''brim_width'' \<mapsto> PInt 10),
                add_warning
                  (Msg (''{} tends to warp. Use brim, ensure bed is level, '' @
                        ''and consider enclosure if available.'') [PStr (name m)])
                  (record_change ''brim_width'' old_brim (PInt 10)
                     (Msg ''{} is prone to warping - larger brim helps'' [PStr (name m)]) L))
         else Inr (p, L))
     else Inr (p, L))"

definition first_layer_speed_rule :: "ostate \<Rightarrow> py_error + ostate" where
  "first_layer_speed_rule = (\<lambda>(p, L).
     let old_first = pget p ''initial_layer_speed'' (PInt 30) in
     ebind (num old_first) (\<lambda>x.
       if 25 < x then
         Inr (p(''initial_layer_speed'' \<mapsto> PInt 20),
              record_change ''initial_layer_speed'' old_first (PInt 20)
                (Msg ''Slower first layer improves adhesion'' []) L)
       else Inr (p, L)))"

definition first_layer_height_rule :: "ostate \<Rightarrow> py_error + ostate" where
  "first_layer_height_rule = (\<lambda>(p, L).
     let old_height = pget p ''initial_layer_height'' (PFloat (2 / 10)) in
     ebind (num (pget p ''layer_height'' (PFloat (2 / 10)))) (\<lambda>layer_height.
       let optimal_first = layer_height * (12 / 10) in
       ebind (num old_height) (\<lambda>h.
         if 2 / 100 < \<bar>h - optimal_first\<bar> then
           Inr (p(''initial_layer_height'' \<mapsto> PFloat (round2 optimal_first)),
                record_change ''initial_layer_height'' old_height
                  (PFloat (round2 optimal_first))
                  (Msg ''Slightly thicker first layer improves bed adhesion'' []) L)
         else Inr (p, L))))"

definition optimize_adhesion :: "FilamentProfile \<Rightarrow> ostate \<Rightarrow> py_error + ostate" where
  "optimize_adhesion m st =
     ebind (brim_rule m st) (\<lambda>st1.
     ebind (first_layer_speed_rule st1) first_layer_height_rule)"

subsection \<open>Rule 6: structure\<close>

definition optimize_structure :: "FilamentProfile \<Rightarrow> ostate \<Rightarrow> py_error + ostate" where
  "optimize_structure m = (\<lambda>(p, L).
     if is_flexible m then
       ebind (num (pget p ''wall_loops'' (PInt 3))) (\<lambda>w.
         let st1 =
           (if w < 3 then
              (p(''wall_loops'' \<mapsto> PInt 3),
               record_change ''wall_loops'' (pget p ''wall_loops'' (PInt 3)) (PInt 3)
                 (Msg ''Flexible materials benefit from more walls'' []) L)
            else (p, L))
         in
         ebind (num (pget (fst st1) ''sparse_infill_density'' (PInt 20))) (\<lambda>infill.
           if 25 < infill then
             Inr (fst st1,
                  add_note
                    (Msg (''Current infill is {}%. Lower infill (10-20%) '' @
                          ''makes TPU more flexible.'')
                       [pget (fst st1) ''sparse_infill_density'' (PInt 20)]) (snd st1))
           else Inr st1))
     else Inr (p, L))"

subsection \<open>Rule 7: material specifics\<close>

definition ams_rule :: "FilamentProfile \<Rightarrow> ostate \<Rightarrow> ostate" where
  "ams_rule m = (\<lambda>(p, L).
     if \<not> ams_compatible m then
       (p, add_warning
             (Msg (''{} is NOT compatible with AMS. '' @
                   ''Feed filament directly to the extruder.'') [PStr (name m)]) L)
     else (p, L))"

definition draft_shield_rule :: "FilamentProfile \<Rightarrow> ostate \<Rightarrow> ostate" where
  "draft_shield_rule m = (\<lambda>(p, L).
     if filament_type m = PC then
       (p(''enable_draft_shield'' \<mapsto> PBool True),
        record_change ''enable_draft_shield'' (PBool False) (PBool True)
          (Msg ''Draft shield helps PC on open frame printers'' [])
          (add_warning
             (Msg (''Polycarbonate prints best in an enclosed printer. '' @
                   ''A1 is open frame - keep parts small and use draft shield.'') []) L))
     else (p, L))"

definition cold_room_rule :: "FilamentProfile \<Rightarrow> real \<Rightarrow> ostate \<Rightarrow> py_error + ostate" where
  "cold_room_rule m ambient_temp = (\<lambda>(p, L).
     if ambient_temp < 18 then
       let L1 = add_note
          (Msg (''Room is cold ({}'' @ degree_sign @ ''C). Consider +5'' @ degree_sign @
                ''C bed temp and using enclosure/draft shield for better adhesion.'')
             [PFloat ambient_temp]) L
       in
       (case p ''bed_temp'' of
          Some bed \<Rightarrow>
            ebind (py_add bed (PInt 5)) (\<lambda>raised.
            ebind (py_min raised (PInt (max_temp (bed_temp m)))) (\<lambda>new_bed.
              Inr (p(''bed_temp'' \<mapsto> new_bed), L1)))
        | None \<Rightarrow> Inr (p, L1))
     else Inr (p, L))"

definition z_hop_rule :: "FilamentProfile \<Rightarrow> ostate \<Rightarrow> ostate" where
  "z_hop_rule m = (\<lambda>(p, L).
     if filament_type m = PETG then
       let L1 = add_note
          (Msg (''PETG tends to string. Tune retraction and consider '' @
                ''lowering temp by 5-10'' @ degree_sign @ ''C if stringing occurs.'') []) L
       in
       if \<not> truthy (pget p ''z_hop_enabled'' (PBool False)) then
         (p(''z_hop_enabled'' \<mapsto> PBool True, ''z_hop_height'' \<mapsto> PFloat (4 / 10)),
          record_change ''z_hop_enabled'' (PBool False) (PBool True)
            (Msg ''Z-hop helps PETG avoid nozzle hitting printed parts'' []) L1)
       else (p, L1)
     else (p, L))"

definition apply_material_specifics ::
  "FilamentProfile \<Rightarrow> real \<Rightarrow> ostate \<Rightarrow> py_error + ostate" where
  "apply_material_specifics m ambient_temp st =
     ebind (cold_room_rule m ambient_temp (draft_shield_rule m (ams_rule m st)))
       (\<lambda>st1. Inr (z_hop_rule m st1))"

subsection \<open>The optimizer\<close>

text \<open>
  The registry of \<^verbatim>\<open>vibe_print.materials.filaments\<close> is not among the sources; the
  lookup \<^verbatim>\<open>get_filament_profile\<close> is the argument \<open>profiles\<close>. The nozzle profile that
  the source looks up is not used by it.
\<close>

text \<open>The seven rules in their fixed order.\<close>

definition apply_rules ::
  "FilamentProfile \<Rightarrow> real \<Rightarrow> real \<Rightarrow> ostate \<Rightarrow> py_error + ostate" where
  "apply_rules m nozzle_diameter ambient_temp st =
     ebind (optimize_temperatures m st) (\<lambda>st1.
     ebind (optimize_speeds m nozzle_diameter st1) (\<lambda>st2.
     ebind (optimize_retraction m st2) (\<lambda>st3.
     ebind (optimize_cooling m st3) (\<lambda>st4.
     ebind (optimize_adhesion m st4) (\<lambda>st5.
     ebind (optimize_structure m st5)
       (apply_material_specifics m ambient_temp))))))"

definition empty_log :: olog where
  "empty_log = \<lparr>changes = [], warnings = [], notes_log = []\<rparr>"

definition optimize_for_material ::
  "(string \<Rightarrow> FilamentProfile option) \<Rightarrow> params \<Rightarrow> string \<Rightarrow> real \<Rightarrow> real \<Rightarrow>
   py_error + OptimizationResult" where
  "optimize_for_material profiles p material nozzle_diameter ambient_temp =
     (case profiles material of
        None \<Rightarrow>
          Inr \<lparr>original_params = p, optimized_params = p, changes_made = [],
               res_warnings =
                 [Msg (''Unknown material '' @ [CHR 0x27] @ ''{}'' @ [CHR 0x27] @
                       '', using defaults'') [PStr material]],
               res_notes = []\<rparr>
      | Some m \<Rightarrow>
          ebind (apply_rules m nozzle_diameter ambient_temp (p, empty_log)) (\<lambda>(q, L).
            Inr \<lparr>original_params = p, optimized_params = q, changes_made = changes L,
                 res_warnings = warnings L, res_notes = notes_log L\<rparr>))"

text \<open>Running the optimizer on its own output, and reading a result that may be an error.\<close>

definition optimize_twice ::
  "(string \<Rightarrow> FilamentProfile option) \<Rightarrow> params \<Rightarrow> string \<Rightarrow> real \<Rightarrow> real \<Rightarrow>
   py_error + OptimizationResult" where
  "optimize_twice profiles p material nozzle_diameter ambient_temp =
     ebind (optimize_for_material profiles p material nozzle_diameter ambient_temp)
       (\<lambda>r. optimize_for_material profiles (optimized_params r) material nozzle_diameter
          ambient_temp)"

definition param_after :: "py_error + OptimizationResult \<Rightarrow> string \<Rightarrow> pval option" where
  "param_after res k = (case res of Inl e \<Rightarrow> None | Inr r \<Rightarrow> optimized_params r k)"

definition changes_after :: "py_error + OptimizationResult \<Rightarrow> change list option" where
  "changes_after res = (case res of Inl e \<Rightarrow> None | Inr r \<Rightarrow> Some (changes_made r))"

text \<open>
  The profiles for which a second run changes nothing: not polycarbonate, limits that
  are not negative, and for a flexible filament a retraction length within 0.2 mm of the
  0.5 mm that the rule for flexible filaments sets.
\<close>

definition profile_ok :: "FilamentProfile \<Rightarrow> bool" where
  "profile_ok m =
     (filament_type m \<noteq> PC \<and> 0 \<le> max_print_speed m \<and> 0 \<le> max_volumetric_flow m \<and>
      (is_flexible m \<longrightarrow> \<bar>1 / 2 - retraction_length m\<bar> \<le> 2 / 10))"

text \<open>
  Two notions for the proofs about a rule \<open>f\<close>: on the parameters \<open>q\<close> it changes
  neither the parameters nor the change log; it writes the keys in \<open>W\<close> only.
\<close>

definition quiet :: "(ostate \<Rightarrow> py_error + ostate) \<Rightarrow> params \<Rightarrow> bool" where
  "quiet f q = (\<forall>L. \<exists>L'. f (q, L) = Inr (q, L') \<and> changes L' = changes L)"

definition writes :: "(ostate \<Rightarrow> py_error + ostate) \<Rightarrow> string set \<Rightarrow> bool" where
  "writes f W = (\<forall>p L p' L'. f (p, L) = Inr (p', L') \<longrightarrow> (\<forall>k. k \<notin> W \<longrightarrow> p' k = p k))"

definition example_opt_params :: params where
  "example_opt_params = [''outer_wall_speed'' \<mapsto> PInt 200, ''nozzle_temp'' \<mapsto> PInt 100]"

section \<open>Guided workflow (bambustudio\_mcp/wizard/guided\_workflow.py)\<close>

datatype WorkflowStage =
  ST_REQUIREMENTS | ST_DESIGN_REVIEW | ST_MATERIAL_SELECT | ST_NOZZLE_SELECT
  | ST_SLICING_REVIEW | ST_FINAL_REVIEW | ST_GENERATION | ST_SLICING | ST_READY
  | ST_PRINTING | ST_COMPLETE

datatype CheckpointStatus =
  CP_PENDING | CP_WAITING_INPUT | CP_APPROVED | CP_SKIPPED | CP_FAILED

record WorkflowCheckpoint =
  stage :: WorkflowStage
  title :: string
  description :: string
  cp_status :: CheckpointStatus
  questions :: "json list"
  answers :: "(string \<times> json) list"
  suggestions :: "json list"
  cp_warnings :: "string list"
  auto_approvable :: bool
  timestamp :: "datetime option"

text \<open>
  The fields of the workflow state that the engine writes. The chosen material is kept
  as the value that the answers gave, a string when the user chose from the options.
\<close>

record WorkflowState =
  workflow_id :: string
  wf_created_at :: datetime
  current_stage :: WorkflowStage
  checkpoints :: "WorkflowCheckpoint list"
  user_description :: string
  parsed_requirements :: "(string \<times> json) list option"
  design_params :: "(string \<times> json) list"
  wf_material :: json
  nozzle_diameter :: real
  slicing_params :: params
  is_complete :: bool


























text \<open>\<^verbatim>\<open>if answers: if "material" in answers: self.state.material = answers["material"]\<close>.\<close>

definition choose_material :: "(string \<times> json) list option \<Rightarrow> WorkflowState \<Rightarrow> WorkflowState" where
  "choose_material ans st =
     (case ans of
        None \<Rightarrow> st
      | Some a \<Rightarrow>
          (case map_of a ''material'' of
             None \<Rightarrow> st
           | Some v \<Rightarrow> st\<lparr>wf_material := v\<rparr>))"









text \<open>The most recent checkpoint that waits for input.\<close>

definition waiting :: "WorkflowCheckpoint \<Rightarrow> bool" where
  "waiting cp = (cp_status cp = CP_WAITING_INPUT)"


text \<open>
  \<^verbatim>\<open>current.status = APPROVED\<close> and \<^verbatim>\<open>current.answers = answers\<close> change the checkpoint
  object that the list holds: the first waiting one from the end.
\<close>

definition approved :: "(string \<times> json) list option \<Rightarrow> WorkflowCheckpoint \<Rightarrow> WorkflowCheckpoint" where
  "approved ans cp =
     (case ans of
        None \<Rightarrow> cp\<lparr>cp_status := CP_APPROVED\<rparr>
      | Some a \<Rightarrow>
          if a = [] then cp\<lparr>cp_status := CP_APPROVED\<rparr>
          else cp\<lparr>cp_status := CP_APPROVED, answers := a\<rparr>)"















section \<open>Theorems\<close>

subsection \<open>Quality score\<close>

lemma score_loop_sum:
  "score_loop s ds = s - sum_list (map (\<lambda>d. severity_weight (severity d) * confidence d) ds)"
proof (induction ds arbitrary: s)
  case Nil
  show ?case by simp
next
  case (Cons d ds)
  show ?case by (cases "severity d") (simp_all add: Cons.IH)
qed

text \<open>
  C4, as stated: one critical defect at confidence 1.0 and one info defect at confidence
  0.4 give the score 78. The code computes 100 - 40 - 2 = 58.
\<close>

theorem C4_score_not_78:
  "calculate_quality_score scenario_defects = 58 \<and>
   calculate_quality_score scenario_defects \<noteq> 78"
  by (simp add: calculate_quality_score_def scenario_defects_def)

text \<open>
  C4, amended: the score starts at 100, loses 40, 20 or 5 times the confidence for each
  critical, warning or info defect, and is floored at 0; for one critical defect at
  confidence 1.0 and one info defect at confidence 0.4 it is 58, and should\_pause holds.
\<close>

theorem C4_quality_score:
  "calculate_quality_score ds =
     max 0 (100 - sum_list (map (\<lambda>d. severity_weight (severity d) * confidence d) ds)) \<and>
   print_quality_score (detection_result scenario_defects) = 58 \<and>
   should_pause (detection_result scenario_defects)"
  by (simp add: calculate_quality_score_def score_loop_sum detection_result_def
      scenario_defects_def should_pause_def has_critical_defects_def)

subsection \<open>Iteration store\<close>

text \<open>
  C10: record-outcome on an id that is not in the store returns absent and writes
  nothing: the store afterwards is the store before.
\<close>

theorem C10_record_outcome_missing_id:
  "db ident = None \<Longrightarrow>
   record_outcome now db ident st quality defs nts minutes = (None, db)"
  by (simp add: record_outcome_def get_iteration_def)

theorem C10_record_outcome_missing_id_witness:
  "example_db ''ffffffff'' = None \<and>
   record_outcome 7 example_db ''ffffffff'' ''completed'' (Some 90) (Some [''stringing''])
     ''ok'' (Some 42) = (None, example_db)"
proof -
  have h: "example_db ''ffffffff'' = None"
    by (simp add: example_db_def)
  show ?thesis
    using h C10_record_outcome_missing_id [of example_db "''ffffffff''" 7 "''completed''"
        "Some 90" "Some [''stringing'']" "''ok''" "Some 42"]
    by simp
qed

subsection \<open>Printer status parsing\<close>

lemma ebind_Inr [simp]: "ebind (Inr x) f = f x"
  by (simp add: ebind_def)

lemma ebind_Inl [simp]: "ebind (Inl e) f = Inl e"
  by (simp add: ebind_def)

lemma py_float_numeric: "numeric v \<Longrightarrow> py_float B v = Inr (json_real v)"
  by (cases v) simp_all

lemma py_int_numeric: "numeric v \<Longrightarrow> py_int B v = Inr (json_int v)"
  by (cases v) simp_all

lemma field_numeric_get:
  "field_numeric pd k \<Longrightarrow> numeric d \<Longrightarrow> numeric (dict_get pd k d)"
  by (simp add: field_numeric_def dict_get_def split: option.splits)

lemma temperature_reading_ok:
  assumes "field_temperature pd a" "field_temperature pd b"
  shows "temperature_reading B (dict_get pd a JNull) (dict_get pd b JNull) =
     Inr (if dict_get pd a JNull \<noteq> JNull \<and> dict_get pd b JNull \<noteq> JNull
          then Some \<lparr>current = json_real (dict_get pd a JNull),
                     target = json_real (dict_get pd b JNull)\<rparr>
          else None)"
  using assms
  by (auto simp: temperature_reading_def field_temperature_def dict_get_def py_float_numeric
      split: option.splits)

lemma chamber_reading_ok:
  assumes "field_temperature pd a"
  shows "chamber_reading B (dict_get pd a JNull) =
     Inr (if dict_get pd a JNull \<noteq> JNull
          then Some (json_real (dict_get pd a JNull)) else None)"
  using assms
  by (auto simp: chamber_reading_def field_temperature_def dict_get_def py_float_numeric
      split: option.splits)

lemma parse_print_data_ok:
  assumes "well_typed_print_data pd"
  shows "\<exists>st. parse_print_data B now report pd = Inr st \<and>
     gcode_state st =
       (case gcode_state_of (dict_get pd ''gcode_state'' (JStr ''UNKNOWN'')) of
          None \<Rightarrow> G_UNKNOWN | Some g \<Rightarrow> g) \<and>
     state st = state_map (gcode_state st) \<and>
     st_nozzle_temp st =
       (if dict_get pd ''nozzle_temper'' JNull \<noteq> JNull \<and>
           dict_get pd ''nozzle_target_temper'' JNull \<noteq> JNull
        then Some \<lparr>current = json_real (dict_get pd ''nozzle_temper'' JNull),
                   target = json_real (dict_get pd ''nozzle_target_temper'' JNull)\<rparr>
        else None) \<and>
     st_bed_temp st =
       (if dict_get pd ''bed_temper'' JNull \<noteq> JNull \<and>
           dict_get pd ''bed_target_temper'' JNull \<noteq> JNull
        then Some \<lparr>current = json_real (dict_get pd ''bed_temper'' JNull),
                   target = json_real (dict_get pd ''bed_target_temper'' JNull)\<rparr>
        else None) \<and>
     chamber_temp st =
       (if dict_get pd ''chamber_temper'' JNull \<noteq> JNull
        then Some (json_real (dict_get pd ''chamber_temper'' JNull)) else None) \<and>
     percentage (progress st) = json_real (dict_get pd ''mc_percent'' (JInt 0)) \<and>
     layer_current (progress st) = json_int (dict_get pd ''layer_num'' (JInt 0)) \<and>
     layer_total (progress st) = json_int (dict_get pd ''total_layer_num'' (JInt 0)) \<and>
     time_elapsed_minutes (progress st) =
       json_int (dict_get pd ''mc_print_time'' (JInt 0)) div 60 \<and>
     time_remaining_minutes (progress st) =
       json_int (dict_get pd ''mc_remaining_time'' (JInt 0)) \<and>
     fan_speed_percent st = json_int (dict_get pd ''cooling_fan_speed'' (JInt 0)) \<and>
     speed_level st = json_int (dict_get pd ''spd_lvl'' (JInt 1)) \<and>
     wifi_signal st = json_int (dict_get pd ''wifi_signal'' (JInt 0)) \<and>
     print_error st = json_int (dict_get pd ''print_error'' (JInt 0)) \<and>
     hw_switch_state st = json_int (dict_get pd ''hw_switch_state'' (JInt 0))"
  using assms unfolding well_typed_print_data_def parse_print_data_def Let_def
  by (simp add: temperature_reading_ok chamber_reading_ok py_float_numeric py_int_numeric
      field_numeric_get)

text \<open>
  C9, as stated: parsing succeeds for every report, also with an unrecognised top-level
  print object, and missing temperatures become 0. A report whose \<^verbatim>\<open>print\<close> member is
  null raises \<^verbatim>\<open>AttributeError\<close>, and so does one whose \<^verbatim>\<open>print\<close> member is a list;
  a null counter raises \<^verbatim>\<open>TypeError\<close>.
\<close>

theorem C9_parsing_raises:
  "from_mqtt_report no_parsers 0 [(''print'', JNull)] = Inl AttributeError \<and>
   from_mqtt_report no_parsers 0 [(''print'', JArr [])] = Inl AttributeError \<and>
   from_mqtt_report no_parsers 0 [(''print'', JObj [(''layer_num'', JNull)])] = Inl TypeError"
  by (simp add: from_mqtt_report_def dict_get_def parse_print_data_def
      temperature_reading_def chamber_reading_def)

text \<open>
  C9, amended: for every report whose \<^verbatim>\<open>print\<close> member is absent, or is an object in
  which every temperature field that is present is a number or null and every counter
  that is present is a number, status parsing succeeds. An absent or unknown gcode\_state
  gives the UNKNOWN state; a temperature reading with a missing field stays absent
  (\<^verbatim>\<open>None\<close>, not 0); the missing counters default to 0 and the speed level to 1.
\<close>

theorem C9_status_parsing:
  assumes "dict_get report ''print'' (JObj []) = JObj pd"
    and "well_typed_print_data pd"
  shows "\<exists>st. from_mqtt_report B now report = Inr st \<and>
     (gcode_state_of (dict_get pd ''gcode_state'' (JStr ''UNKNOWN'')) = None \<longrightarrow>
        gcode_state st = G_UNKNOWN \<and> state st = UNKNOWN) \<and>
     (map_of pd ''nozzle_temper'' = None \<or> map_of pd ''nozzle_target_temper'' = None \<longrightarrow>
        st_nozzle_temp st = None) \<and>
     (map_of pd ''bed_temper'' = None \<or> map_of pd ''bed_target_temper'' = None \<longrightarrow>
        st_bed_temp st = None) \<and>
     (map_of pd ''chamber_temper'' = None \<longrightarrow> chamber_temp st = None) \<and>
     (map_of pd ''mc_percent'' = None \<longrightarrow> percentage (progress st) = 0) \<and>
     (map_of pd ''layer_num'' = None \<longrightarrow> layer_current (progress st) = 0) \<and>
     (map_of pd ''total_layer_num'' = None \<longrightarrow> layer_total (progress st) = 0) \<and>
     (map_of pd ''mc_print_time'' = None \<longrightarrow> time_elapsed_minutes (progress st) = 0) \<and>
     (map_of pd ''mc_remaining_time'' = None \<longrightarrow>
        time_remaining_minutes (progress st) = 0) \<and>
     (map_of pd ''cooling_fan_speed'' = None \<longrightarrow> fan_speed_percent st = 0) \<and>
     (map_of pd ''spd_lvl'' = None \<longrightarrow> speed_level st = 1) \<and>
     (map_of pd ''wifi_signal'' = None \<longrightarrow> wifi_signal st = 0) \<and>
     (map_of pd ''print_error'' = None \<longrightarrow> print_error st = 0) \<and>
     (map_of pd ''hw_switch_state'' = None \<longrightarrow> hw_switch_state st = 0)"
proof -
  from parse_print_data_ok [OF assms(2), of B now report]
  obtain st where st: "parse_print_data B now report pd = Inr st"
    and rest: "gcode_state st =
       (case gcode_state_of (dict_get pd ''gcode_state'' (JStr ''UNKNOWN'')) of
          None \<Rightarrow> G_UNKNOWN | Some g \<Rightarrow> g)"
      "state st = state_map (gcode_state st)"
      "st_nozzle_temp st =
       (if dict_get pd ''nozzle_temper'' JNull \<noteq> JNull \<and>
           dict_get pd ''nozzle_target_temper'' JNull \<noteq> JNull
        then Some \<lparr>current = json_real (dict_get pd ''nozzle_temper'' JNull),
                   target = json_real (dict_get pd ''nozzle_target_temper'' JNull)\<rparr>
        else None)"
      "st_bed_temp st =
       (if dict_get pd ''bed_temper'' JNull \<noteq> JNull \<and>
           dict_get pd ''bed_target_temper'' JNull \<noteq> JNull
        then Some \<lparr>current = json_real (dict_get pd ''bed_temper'' JNull),
                   target = json_real (dict_get pd ''bed_target_temper'' JNull)\<rparr>
        else None)"
      "chamber_temp st =
       (if dict_get pd ''chamber_temper'' JNull \<noteq> JNull
        then Some (json_real (dict_get pd ''chamber_temper'' JNull)) else None)"
      "percentage (progress st) = json_real (dict_get pd ''mc_percent'' (JInt 0))"
      "layer_current (progress st) = json_int (dict_get pd ''layer_num'' (JInt 0))"
      "layer_total (progress st) = json_int (dict_get pd ''total_layer_num'' (JInt 0))"
      "time_elapsed_minutes (progress st) =
         json_int (dict_get pd ''mc_print_time'' (JInt 0)) div 60"
      "time_remaining_minutes (progress st) =
         json_int (dict_get pd ''mc_remaining_time'' (JInt 0))"
      "fan_speed_percent st = json_int (dict_get pd ''cooling_fan_speed'' (JInt 0))"
      "speed_level st = json_int (dict_get pd ''spd_lvl'' (JInt 1))"
      "wifi_signal st = json_int (dict_get pd ''wifi_signal'' (JInt 0))"
      "print_error st = json_int (dict_get pd ''print_error'' (JInt 0))"
      "hw_switch_state st = json_int (dict_get pd ''hw_switch_state'' (JInt 0))"
    by blast
  have "from_mqtt_report B now report = Inr st"
    using assms(1) st by (simp add: from_mqtt_report_def)
  then show ?thesis
    using rest by (simp add: dict_get_def)
qed

theorem C9_status_parsing_witness:
  "dict_get example_report ''print'' (JObj []) =
     JObj [(''gcode_state'', JStr ''SLICING''), (''mc_percent'', JInt 42),
        (''nozzle_temper'', JFloat 215), (''bed_temper'', JNull)] \<and>
   well_typed_print_data [(''gcode_state'', JStr ''SLICING''), (''mc_percent'', JInt 42),
        (''nozzle_temper'', JFloat 215), (''bed_temper'', JNull)] \<and>
   (\<exists>st. from_mqtt_report no_parsers 5 example_report = Inr st \<and>
      gcode_state st = G_UNKNOWN \<and> state st = UNKNOWN \<and> st_nozzle_temp st = None \<and>
      st_bed_temp st = None \<and> chamber_temp st = None \<and> layer_current (progress st) = 0 \<and>
      speed_level st = 1 \<and> print_error st = 0)"
proof -
  let ?pd = "[(''gcode_state'', JStr ''SLICING''), (''mc_percent'', JInt 42),
        (''nozzle_temper'', JFloat 215), (''bed_temper'', JNull)]"
  have h1: "dict_get example_report ''print'' (JObj []) = JObj ?pd"
    by (simp add: dict_get_def example_report_def)
  have h2: "well_typed_print_data ?pd"
    by (simp add: well_typed_print_data_def field_temperature_def field_numeric_def)
  show ?thesis
    using h1 h2 C9_status_parsing [OF h1 h2, of no_parsers 5]
    by (auto simp: dict_get_def)
qed

subsection \<open>Print job status\<close>

text \<open>
  C3: once a job is completed, failed or cancelled, no operation changes its status,
  progress or timestamps. \<^verbatim>\<open>resume_print\<close> tests the status of the job and leaves a
  completed job alone; \<^verbatim>\<open>pause_print\<close> and \<^verbatim>\<open>stop_print\<close> have no such test. On
  a connected controller whose job is completed, pausing sets the status to paused, and
  stopping sets it to cancelled and replaces the completion time.
\<close>

theorem C3_terminal_job_mutated:
  "status finished_job = ''completed'' \<and>
   resume_print finished_controller = Inr (False, finished_controller) \<and>
   pause_print finished_controller =
     Inr (True, finished_controller\<lparr>current_job := Some (finished_job\<lparr>status := ''paused''\<rparr>)\<rparr>) \<and>
   stop_print 20 finished_controller =
     Inr (True, finished_controller\<lparr>current_job :=
       Some (finished_job\<lparr>status := ''cancelled'', completed_at := Some 20\<rparr>)\<rparr>)"
  by (simp add: resume_print_def pause_print_def stop_print_def finished_controller_def
      finished_job_def)

subsection \<open>Slicing recipe\<close>

text \<open>
  C5: a gift print has at least 4 wall loops and a prototype has exactly 2, as the
  options of the use case question say. \<^verbatim>\<open>get_recommended_settings\<close> raises the wall
  loops for the functional use case only: with the draft preset a gift print gets the
  preset's 2 wall loops, and with the standard preset a prototype gets the preset's 3.
  The infill of a prototype is capped at 15 and not at 10, and the infill of a decorative
  print is not capped: with the quality preset it is the preset's 25.
\<close>

theorem C5_gift_prototype_walls:
  "get_recommended_settings ''bambu_pla'' (4 / 10) DRAFT GIFT ''wall_loops'' = Some (PInt 2) \<and>
   get_recommended_settings ''bambu_pla'' (4 / 10) STANDARD PROTOTYPE ''wall_loops'' =
     Some (PInt 3) \<and>
   get_recommended_settings ''bambu_pla'' (4 / 10) STANDARD PROTOTYPE ''sparse_infill_density'' =
     Some (PInt 15) \<and>
   get_recommended_settings ''bambu_pla'' (4 / 10) QUALITY DECORATIVE ''sparse_infill_density'' =
     Some (PInt 25)"
  by (simp add: get_recommended_settings_def Let_def material_settings_def
      split: option.splits)

subsection \<open>Recommender: learning from history\<close>

lemma max_by_quality_first:
  "\<exists>pre post. b # xs = pre @ max_by_quality b xs # post \<and>
     (\<forall>j \<in> set pre. quality_key j < quality_key (max_by_quality b xs)) \<and>
     (\<forall>j \<in> set post. quality_key j \<le> quality_key (max_by_quality b xs))"
proof (induction xs arbitrary: b rule: rev_induct)
  case Nil
  show ?case by (intro exI [of _ "[]"]) simp
next
  case (snoc x xs)
  have app: "max_by_quality b (xs @ [x]) =
      (if quality_key (max_by_quality b xs) < quality_key x then x else max_by_quality b xs)"
    for b
    by (induction xs arbitrary: b) auto
  from snoc [of b] obtain pre post where s: "b # xs = pre @ max_by_quality b xs # post"
    "\<forall>j \<in> set pre. quality_key j < quality_key (max_by_quality b xs)"
    "\<forall>j \<in> set post. quality_key j \<le> quality_key (max_by_quality b xs)"
    by blast
  show ?case
  proof (cases "quality_key (max_by_quality b xs) < quality_key x")
    case True
    have all: "\<forall>j \<in> set (b # xs). quality_key j < quality_key x"
      unfolding s(1) using s(2,3) True by auto
    show ?thesis
      unfolding app using True all
      by (intro exI [of _ "b # xs"] exI [of _ "[]"]) simp
  next
    case False
    show ?thesis
      unfolding app using False s
      by (intro exI [of _ pre] exI [of _ "post @ [x]"]) auto
  qed
qed

lemma history_recommendation_empty: "history_recommendation cur best [] p = []"
  by (simp add: history_recommendation_def dict_value_def)

lemma learn_from_history_Cons:
  assumes "filter successful its = i # rest"
    and "parameters (max_by_quality i rest) = Some ps"
  shows "learn_from_history cur its =
      concat (map (history_recommendation cur (max_by_quality i rest) ps) compare_params)"
proof (cases "ps = []")
  case True
  then show ?thesis
    using assms by (simp add: learn_from_history_def history_recommendation_empty)
next
  case False
  then show ?thesis
    using assms by (simp add: learn_from_history_def)
qed


text \<open>
  C6, amended: the recommender selects the iterations with status completed, a quality
  above 80 (80 itself is not enough) and recorded parameters. If there is none, nothing
  is recommended. Otherwise \<open>best\<close> is the first of the selected iterations with the
  largest quality: every selected iteration before it has a smaller quality and none
  after it has a larger one. For each of layer\_height, wall\_loops,
  sparse\_infill\_density and outer\_wall\_speed, in this order, that has a value both now
  and in \<open>best\<close>, the two being different, it emits a recommendation of the value of
  \<open>best\<close> with priority 3 and confidence 0.5.
\<close>

theorem C6_history_learning:
  "(successful i \<longleftrightarrow>
      it_status i = ''completed'' \<and> (\<exists>q. quality_score i = Some q \<and> 80 < q) \<and>
      parameters i \<noteq> None) \<and>
   (filter successful its = [] \<longrightarrow> learn_from_history cur its = []) \<and>
   (filter successful its \<noteq> [] \<longrightarrow>
      (\<exists>pre best post ps. filter successful its = pre @ best # post \<and>
         (\<forall>j \<in> set pre. quality_key j < quality_key best) \<and>
         (\<forall>j \<in> set post. quality_key j \<le> quality_key best) \<and>
         parameters best = Some ps \<and>
         learn_from_history cur its =
           concat (map (\<lambda>p.
             if getattr_or_none cur p \<noteq> PNone \<and> dict_value ps p \<noteq> PNone \<and>
                \<not> py_eq (getattr_or_none cur p) (dict_value ps p)
             then [\<lparr>parameter = p,
                     current_value = getattr_or_none cur p,
                     suggested_value = dict_value ps p,
                     reason = ''Value used in successful print (quality: '' @
                       str_of_int (py_round (quality_key best)) @ ''%)'',
                     rec_confidence = 1 / 2,
                     priority = 3\<rparr>]
             else [])
             [''layer_height'', ''wall_loops'', ''sparse_infill_density'',
              ''outer_wall_speed''])))"
  (is "?S \<and> _ \<and> (_ \<longrightarrow> (\<exists>pre best post ps. _ \<and> _ \<and> _ \<and> _ \<and> _ = ?R best ps))")
proof -
  have sel: ?S
    by (auto simp: successful_def split: option.splits)
  show ?thesis
  proof (cases "filter successful its")
    case Nil
    with sel show ?thesis by (simp add: learn_from_history_def)
  next
    case (Cons i0 rest)
    define best where "best = max_by_quality i0 rest"
    obtain pre post where split: "i0 # rest = pre @ best # post"
      and before: "\<forall>j \<in> set pre. quality_key j < quality_key best"
      and after: "\<forall>j \<in> set post. quality_key j \<le> quality_key best"
      unfolding best_def using max_by_quality_first [of i0 rest] by blast
    have "best \<in> set (filter successful its)"
      unfolding Cons split by simp
    then have "successful best" by simp
    then obtain ps where ps: "parameters best = Some ps"
      by (auto simp: successful_def)
    have eq: "learn_from_history cur its =
        concat (map (history_recommendation cur best ps) compare_params)"
      unfolding best_def
      by (rule learn_from_history_Cons [OF Cons]) (use ps in \<open>simp add: best_def\<close>)
    have eq': "concat (map (history_recommendation cur best ps) compare_params) = ?R best ps"
      unfolding compare_params_def history_recommendation_def by (rule refl)
    have nonempty: "filter successful its \<noteq> []"
      by (simp only: Cons) simp
    have sp: "filter successful its = pre @ best # post"
      by (simp only: Cons split)
    have "filter successful its = pre @ best # post \<and>
        (\<forall>j \<in> set pre. quality_key j < quality_key best) \<and>
        (\<forall>j \<in> set post. quality_key j \<le> quality_key best) \<and>
        parameters best = Some ps \<and>
        learn_from_history cur its = ?R best ps"
      using sp before after ps trans [OF eq eq'] by (intro conjI)
    then have ex: "\<exists>pre best post ps. filter successful its = pre @ best # post \<and>
        (\<forall>j \<in> set pre. quality_key j < quality_key best) \<and>
        (\<forall>j \<in> set post. quality_key j \<le> quality_key best) \<and>
        parameters best = Some ps \<and>
        learn_from_history cur its = ?R best ps"
      by (intro exI)
    have none: "filter successful its = [] \<longrightarrow> learn_from_history cur its = []"
      using nonempty by (intro impI) (erule notE)
    have some: "filter successful its \<noteq> [] \<longrightarrow>
        (\<exists>pre best post ps. filter successful its = pre @ best # post \<and>
        (\<forall>j \<in> set pre. quality_key j < quality_key best) \<and>
        (\<forall>j \<in> set post. quality_key j \<le> quality_key best) \<and>
        parameters best = Some ps \<and>
        learn_from_history cur its = ?R best ps)"
      by (intro impI) (rule ex)
    from sel none some show ?thesis
      by (intro conjI)
  qed
qed

theorem C6_history_learning_witness:
  "filter successful example_history \<noteq> [] \<and>
   learn_from_history example_params example_history =
     [\<lparr>parameter = ''layer_height'',
       current_value = PFloat (2 / 10),
       suggested_value = PFloat (16 / 100),
       reason = ''Value used in successful print (quality: 95%)'',
       rec_confidence = 1 / 2,
       priority = 3\<rparr>] \<and>
   filter successful tied_history = tied_history \<and>
   learn_from_history example_params tied_history =
     [\<lparr>parameter = ''wall_loops'',
       current_value = PInt 2,
       suggested_value = PInt 3,
       reason = ''Value used in successful print (quality: 90%)'',
       rec_confidence = 1 / 2,
       priority = 3\<rparr>]"
proof -
  have ne: "filter successful example_history \<noteq> []"
    by (simp add: example_history_def successful_def iteration_with_def example_iteration_def)
  have s95: "str_of_int 95 = ''95''"
    by (simp add: str_of_int_def str_nat.simps)
  have s90: "str_of_int 90 = ''90''"
    by (simp add: str_of_int_def str_nat.simps)
  have ev: "learn_from_history example_params example_history =
     [\<lparr>parameter = ''layer_height'',
       current_value = PFloat (2 / 10),
       suggested_value = PFloat (16 / 100),
       reason = ''Value used in successful print (quality: 95%)'',
       rec_confidence = 1 / 2,
       priority = 3\<rparr>]"
    by (simp add: example_history_def learn_from_history_def successful_def
        iteration_with_def example_iteration_def quality_key_def compare_params_def
        history_recommendation_def getattr_or_none_def dict_value_def example_params_def
        py_round_def s95)
  have all: "filter successful tied_history = tied_history"
    by (simp add: tied_history_def successful_def iteration_with_def example_iteration_def)
  have tie: "learn_from_history example_params tied_history =
     [\<lparr>parameter = ''wall_loops'',
       current_value = PInt 2,
       suggested_value = PInt 3,
       reason = ''Value used in successful print (quality: 90%)'',
       rec_confidence = 1 / 2,
       priority = 3\<rparr>]"
    by (simp add: tied_history_def learn_from_history_def successful_def
        iteration_with_def example_iteration_def quality_key_def compare_params_def
        history_recommendation_def getattr_or_none_def dict_value_def example_params_def
        py_round_def s90)
  show ?thesis
    using C6_history_learning [of example_iteration example_history example_params] ne ev all tie
    by (intro conjI)
qed

text \<open>
  C6, as stated: an iteration with status completed and quality 80 is selected. The code
  selects above 80 only: with such a history, whose layer height differs from the
  current one, nothing is recommended.
\<close>

theorem C6_quality_80_not_selected:
  "it_status (iteration_with 80 [(''layer_height'', PFloat (16 / 100))]) = ''completed'' \<and>
   quality_score (iteration_with 80 [(''layer_height'', PFloat (16 / 100))]) = Some 80 \<and>
   example_params ''layer_height'' = Some (PFloat (2 / 10)) \<and>
   learn_from_history example_params
     [iteration_with 80 [(''layer_height'', PFloat (16 / 100))]] = []"
  by (simp add: learn_from_history_def successful_def iteration_with_def
      example_iteration_def example_params_def)

subsection \<open>Recommender: duplicates and order\<close>

lemma get_recommendations_sorted:
  "get_recommendations cur defs quality iterations = Inr recs \<Longrightarrow>
   sorted (map (\<lambda>r. (priority r, - rec_confidence r)) recs)"
  by (auto simp: get_recommendations_def ebind_def sort_recommendations_def Let_def
      split: sum.splits)

text \<open>
  C7: the returned list has no two entries with the same parameter. With a quality score
  below 50, no defect and a successful iteration whose outer wall speed differs from the
  current one, the code returns two entries for outer\_wall\_speed: the recommendation for
  the low score does not enter the parameter into \<^verbatim>\<open>seen_params\<close>, so the history
  recommendation for the same parameter is kept.
\<close>

theorem C7_duplicate_parameter:
  "get_recommendations example_params [] (Some 40)
     (Some [iteration_with 90 [(''outer_wall_speed'', PFloat 50)]]) =
   Inr [\<lparr>parameter = ''outer_wall_speed'', current_value = PFloat 60,
          suggested_value = PFloat 42,
          reason = ''Significantly reduce speed for better quality'',
          rec_confidence = 6 / 10, priority = 2\<rparr>,
        \<lparr>parameter = ''outer_wall_speed'', current_value = PFloat 60,
          suggested_value = PFloat 50,
          reason = ''Value used in successful print (quality: 90%)'',
          rec_confidence = 1 / 2, priority = 3\<rparr>]"
proof -
  have s90: "str_of_int 90 = ''90''"
    by (simp add: str_of_int_def str_nat.simps)
  have history:
    "learn_from_history example_params [iteration_with 90 [(''outer_wall_speed'', PFloat 50)]] =
       [\<lparr>parameter = ''outer_wall_speed'', current_value = PFloat 60,
          suggested_value = PFloat 50,
          reason = ''Value used in successful print (quality: 90%)'',
          rec_confidence = 1 / 2, priority = 3\<rparr>]"
    by (simp add: learn_from_history_def successful_def iteration_with_def
        example_iteration_def quality_key_def compare_params_def history_recommendation_def
        getattr_or_none_def dict_value_def py_round_def s90 example_params_def)
  have low: "quality_recommendation example_params (Some 40) ([], {}) =
     Inr ([\<lparr>parameter = ''outer_wall_speed'', current_value = PFloat 60,
            suggested_value = PFloat 42,
            reason = ''Significantly reduce speed for better quality'',
            rec_confidence = 6 / 10, priority = 2\<rparr>], {})"
    by (simp add: quality_recommendation_def example_params_def py_mul_def py_max_def)
  show ?thesis
    by (simp add: get_recommendations_def history low sort_recommendations_def)
qed


subsection \<open>Optimizer: a second run\<close>

lemma ebind_eq_Inr: "ebind m f = Inr y \<longleftrightarrow> (\<exists>x. m = Inr x \<and> f x = Inr y)"
  by (cases m) simp_all

lemma quiet_ebind:
  assumes "quiet f q" and "quiet g q"
  shows "quiet (\<lambda>st. ebind (f st) g) q"
  unfolding quiet_def
proof
  fix L
  from assms(1) obtain L1 where 1: "f (q, L) = Inr (q, L1)" "changes L1 = changes L"
    unfolding quiet_def by blast
  from assms(2) obtain L2 where 2: "g (q, L1) = Inr (q, L2)" "changes L2 = changes L1"
    unfolding quiet_def by blast
  show "\<exists>L'. ebind (f (q, L)) g = Inr (q, L') \<and> changes L' = changes L"
    using 1 2 by simp
qed

lemma writes_ebind:
  assumes "writes f W1" and "writes g W2"
  shows "writes (\<lambda>st. ebind (f st) g) (W1 \<union> W2)"
  unfolding writes_def
proof (intro allI impI)
  fix p L p' L' k
  assume run: "ebind (f (p, L)) g = Inr (p', L')" and k: "k \<notin> W1 \<union> W2"
  from run obtain p1 L1 where 1: "f (p, L) = Inr (p1, L1)" and 2: "g (p1, L1) = Inr (p', L')"
    by (auto simp: ebind_eq_Inr)
  from assms(1) 1 k have "p1 k = p k" unfolding writes_def by blast
  moreover from assms(2) 2 k have "p' k = p1 k" unfolding writes_def by blast
  ultimately show "p' k = p k" by simp
qed

lemma num_Inr: "num v = Inr x \<longleftrightarrow> num_of v = Some x"
  by (simp add: num_def split: option.splits)

lemma py_eq_refl_num: "num_of v = Some x \<Longrightarrow> py_eq v v"
  by (cases v) simp_all

lemma changes_record_change_same [simp]: "py_eq a b \<Longrightarrow> record_change k a b r L = L"
  by (simp add: record_change_def)

lemma changes_add_note [simp]: "changes (add_note n L) = changes L"
  by (simp add: add_note_def)

lemma changes_add_warning [simp]: "changes (add_warning n L) = changes L"
  by (simp add: add_warning_def)

lemma nozzle_writes: "writes (nozzle_temperature_rule m) {''nozzle_temp''}"
  by (auto simp: writes_def nozzle_temperature_rule_def ebind_def num_def
      split: option.splits if_split_asm sum.splits)

lemma bed_writes: "writes (bed_temperature_rule m) {''bed_temp''}"
  by (auto simp: writes_def bed_temperature_rule_def ebind_def num_def
      split: option.splits if_split_asm sum.splits)

lemma nozzle_settle:
  assumes run: "nozzle_temperature_rule m (p, L) = Inr (p', L')"
    and agree: "q ''nozzle_temp'' = p' ''nozzle_temp''"
  shows "quiet (nozzle_temperature_rule m) q"
proof -
  from run have "\<exists>v x. p' ''nozzle_temp'' = Some v \<and> num_of v = Some x \<and>
      (x < of_int (min_temp (nozzle_temp m)) \<or> of_int (max_temp (nozzle_temp m)) < x
         \<longrightarrow> v = PInt (optimal (nozzle_temp m)))"
    by (auto simp: nozzle_temperature_rule_def ebind_def num_def
        split: option.splits if_split_asm sum.splits)
  then obtain v x where v: "q ''nozzle_temp'' = Some v" "num_of v = Some x"
      "x < of_int (min_temp (nozzle_temp m)) \<or> of_int (max_temp (nozzle_temp m)) < x
         \<longrightarrow> v = PInt (optimal (nozzle_temp m))"
    using agree by auto
  show ?thesis
    unfolding quiet_def nozzle_temperature_rule_def
    using v by (auto simp: num_def map_upd_triv)
qed

lemma bed_settle:
  assumes run: "bed_temperature_rule m (p, L) = Inr (p', L')"
    and agree: "q ''bed_temp'' = p' ''bed_temp''"
  shows "quiet (bed_temperature_rule m) q"
proof -
  from run have "\<exists>v x. p' ''bed_temp'' = Some v \<and> num_of v = Some x \<and>
      (x < of_int (min_temp (bed_temp m)) \<longrightarrow> v = PInt (optimal (bed_temp m)))"
    by (auto simp: bed_temperature_rule_def ebind_def num_def
        split: option.splits if_split_asm sum.splits)
  then obtain v x where v: "q ''bed_temp'' = Some v" "num_of v = Some x"
      "x < of_int (min_temp (bed_temp m)) \<longrightarrow> v = PInt (optimal (bed_temp m))"
    using agree by auto
  show ?thesis
    unfolding quiet_def bed_temperature_rule_def
    using v by (auto simp: num_def map_upd_triv)
qed

lemma temperatures_writes: "writes (optimize_temperatures m) {''nozzle_temp'', ''bed_temp''}"
proof -
  have "writes (\<lambda>st. ebind (nozzle_temperature_rule m st) (bed_temperature_rule m))
     ({''nozzle_temp''} \<union> {''bed_temp''})"
    by (rule writes_ebind [OF nozzle_writes bed_writes])
  then show ?thesis
    by (simp add: optimize_temperatures_def [abs_def] insert_commute)
qed

lemma temperatures_settle:
  assumes run: "optimize_temperatures m (p, L) = Inr (p', L')"
    and agree: "q ''nozzle_temp'' = p' ''nozzle_temp''" "q ''bed_temp'' = p' ''bed_temp''"
  shows "quiet (optimize_temperatures m) q"
proof -
  from run obtain p1 L1 where 1: "nozzle_temperature_rule m (p, L) = Inr (p1, L1)"
    and 2: "bed_temperature_rule m (p1, L1) = Inr (p', L')"
    by (auto simp: optimize_temperatures_def ebind_eq_Inr)
  have "p' ''nozzle_temp'' = p1 ''nozzle_temp''"
    using bed_writes 2 unfolding writes_def by fastforce
  then have "quiet (nozzle_temperature_rule m) q"
    using nozzle_settle [OF 1] agree by simp
  moreover have "quiet (bed_temperature_rule m) q"
    using bed_settle [OF 2] agree by simp
  ultimately have "quiet (\<lambda>st. ebind (nozzle_temperature_rule m st) (bed_temperature_rule m)) q"
    by (rule quiet_ebind)
  then show ?thesis
    by (simp add: optimize_temperatures_def [abs_def])
qed


lemma cap_writes: "writes (cap_speed key limit rsn) {key}"
  by (auto simp: writes_def cap_speed_def ebind_def num_def Let_def
      split: option.splits if_split_asm sum.splits)

lemma cap_result:
  assumes "cap_speed key limit rsn (p, L) = Inr (p', L')"
  shows "p' key = None \<and> p key = None \<or>
     (\<exists>v x. p' key = Some v \<and> num_of v = Some x \<and> p key \<noteq> None \<and>
        (limit < x \<longrightarrow> v = PInt (trunc limit)))"
  using assms
  by (auto simp: cap_speed_def ebind_def num_def Let_def
      split: option.splits if_split_asm sum.splits)

lemma cap_quiet:
  assumes "q key = None \<or>
     (\<exists>v x. q key = Some v \<and> num_of v = Some x \<and> (limit < x \<longrightarrow> v = PInt (trunc limit)))"
  shows "quiet (cap_speed key limit rsn) q"
  unfolding quiet_def cap_speed_def
  using assms by (auto simp: num_def map_upd_triv Let_def min_def)

lemma cap_settle:
  assumes run: "cap_speed key limit rsn (p, L) = Inr (p', L')"
    and agree: "q key = p' key"
  shows "quiet (cap_speed key limit rsn) q"
  using cap_result [OF run] agree by (intro cap_quiet) auto

lemma vol_writes: "writes (volumetric_rule m d) {''outer_wall_speed''}"
  by (auto simp: writes_def volumetric_rule_def ebind_def num_def Let_def
      split: option.splits if_split_asm sum.splits)

lemma trunc_le: "0 \<le> r \<Longrightarrow> of_int (trunc r) \<le> r"
  by (simp add: trunc_def)

lemma trunc_nonpos: "r \<le> 0 \<Longrightarrow> of_int (trunc r) \<le> (0::real)"
  by (auto simp: trunc_def)

lemma reduced_speed_le:
  fixes a F c x :: real
  assumes "0 \<le> F" "0 \<le> c" "a \<noteq> 0" "F < a * x" "x \<le> c"
  shows "of_int (trunc (F / a * (9 / 10))) \<le> c"
proof (cases "0 < a")
  case True
  then have nonneg: "0 \<le> F / a * (9 / 10)"
    using assms(1) by simp
  have "F / a < x"
    using True assms(4) by (simp add: pos_divide_less_eq mult.commute)
  moreover have "0 \<le> F / a"
    using True assms(1) by simp
  then have "F / a * (9 / 10) \<le> F / a"
    using mult_left_le [of "9 / 10" "F / a"] by simp
  ultimately show ?thesis
    using trunc_le [OF nonneg] assms(5) by linarith
next
  case False
  then have "a < 0" using assms(3) by simp
  then have "F / a * (9 / 10) \<le> 0"
    using assms(1) by (simp add: divide_nonneg_neg mult_le_0_iff)
  from trunc_nonpos [OF this] show ?thesis
    using assms(2) by linarith
qed


lemma outer_speed_settle:
  assumes cap: "cap_speed ''outer_wall_speed'' c rsn (p, L) = Inr (p1, L1)"
    and vol: "volumetric_rule m d (p2, L2) = Inr (p3, L3)"
    and same: "p2 ''outer_wall_speed'' = p1 ''outer_wall_speed''"
    and present: "p ''outer_wall_speed'' \<noteq> None"
    and sane: "0 \<le> c" "0 \<le> max_volumetric_flow m"
    and agree: "q ''outer_wall_speed'' = p3 ''outer_wall_speed''"
      "q ''layer_height'' = p2 ''layer_height''" "q ''line_width'' = p2 ''line_width''"
  shows "quiet (cap_speed ''outer_wall_speed'' c rsn') q \<and> quiet (volumetric_rule m d) q"
proof -
  from cap_result [OF cap] present obtain v x where
    v: "p1 ''outer_wall_speed'' = Some v" "num_of v = Some x"
       "c < x \<longrightarrow> v = PInt (trunc c)"
    by auto
  have xc: "x \<le> c"
  proof (cases "c < x")
    case True
    with v have "x = of_int (trunc c)" by auto
    with trunc_le [OF sane(1)] show ?thesis by simp
  next
    case False then show ?thesis by simp
  qed
  have p2v: "p2 ''outer_wall_speed'' = Some v"
    using same v by simp
  from vol p2v v(2) obtain lh lw where
    lh: "num_of (pget p2 ''layer_height'' (PFloat (2 / 10))) = Some lh"
    and lw: "num_of (pget p2 ''line_width'' (PFloat (d * (11 / 10)))) = Some lw"
    and res: "(max_volumetric_flow m < lh * lw * x \<and> lh * lw \<noteq> 0 \<and>
        p3 ''outer_wall_speed'' = Some (PInt (trunc (max_volumetric_flow m / (lh * lw) * (9 / 10)))))
      \<or> (\<not> max_volumetric_flow m < lh * lw * x \<and> p3 = p2)"
    by (auto simp: volumetric_rule_def ebind_def num_def Let_def pget_def
        split: option.splits if_split_asm sum.splits)
  have qlh: "pget q ''layer_height'' (PFloat (2 / 10)) = pget p2 ''layer_height'' (PFloat (2 / 10))"
    and qlw: "pget q ''line_width'' (PFloat (d * (11 / 10))) =
       pget p2 ''line_width'' (PFloat (d * (11 / 10)))"
    using agree by (simp_all add: pget_def)
  from res show ?thesis
  proof
    assume trig: "max_volumetric_flow m < lh * lw * x \<and> lh * lw \<noteq> 0 \<and>
        p3 ''outer_wall_speed'' = Some (PInt (trunc (max_volumetric_flow m / (lh * lw) * (9 / 10))))"
    define y where "y = trunc (max_volumetric_flow m / (lh * lw) * (9 / 10))"
    have qy: "q ''outer_wall_speed'' = Some (PInt y)"
      using trig agree by (simp add: y_def)
    from trig have t1: "max_volumetric_flow m < lh * lw * x" and t2: "lh * lw \<noteq> 0"
      by blast+
    have "of_int y \<le> c"
      unfolding y_def by (rule reduced_speed_le [OF sane(2) sane(1) t2 t1 xc])
    then have 1: "quiet (cap_speed ''outer_wall_speed'' c rsn') q"
      using qy by (intro cap_quiet) auto
    have 2: "quiet (volumetric_rule m d) q"
      unfolding quiet_def volumetric_rule_def
      using qy trig lh lw qlh qlw
      by (auto simp: num_def Let_def map_upd_triv y_def pget_def)
    from 1 2 show ?thesis ..
  next
    assume no: "\<not> max_volumetric_flow m < lh * lw * x \<and> p3 = p2"
    then have qv: "q ''outer_wall_speed'' = Some v"
      using agree p2v by simp
    have 1: "quiet (cap_speed ''outer_wall_speed'' c rsn') q"
      using qv v xc by (intro cap_quiet) auto
    have 2: "quiet (volumetric_rule m d) q"
      unfolding quiet_def volumetric_rule_def
      using qv v no lh lw qlh qlw
      by (auto simp: num_def Let_def pget_def)
    from 1 2 show ?thesis ..
  qed
qed


lemma writes_mono: "writes f W \<Longrightarrow> W \<subseteq> W' \<Longrightarrow> writes f W'"
  unfolding writes_def by blast

lemma writesD: "writes f W \<Longrightarrow> f (p, L) = Inr (p', L') \<Longrightarrow> k \<notin> W \<Longrightarrow> p' k = p k"
  unfolding writes_def by blast

lemma speeds_writes:
  "writes (optimize_speeds m d) {''outer_wall_speed'', ''inner_wall_speed'', ''infill_speed''}"
proof -
  note a = writes_ebind [OF cap_writes vol_writes]
  note b = writes_ebind [OF cap_writes a]
  note c = writes_ebind [OF cap_writes b]
  show ?thesis
    unfolding optimize_speeds_def [abs_def]
    by (rule writes_mono [OF c]) auto
qed

lemma speeds_settle:
  assumes run: "optimize_speeds m d (p, L) = Inr (p', L')"
    and present: "p ''outer_wall_speed'' \<noteq> None"
    and sane: "0 \<le> max_print_speed m" "0 \<le> max_volumetric_flow m"
    and agree: "q ''outer_wall_speed'' = p' ''outer_wall_speed''"
      "q ''inner_wall_speed'' = p' ''inner_wall_speed''"
      "q ''infill_speed'' = p' ''infill_speed''"
      "q ''layer_height'' = p' ''layer_height''" "q ''line_width'' = p' ''line_width''"
  shows "quiet (optimize_speeds m d) q"
proof -
  from run obtain p1 L1 p2 L2 p3 L3 where
    1: "cap_speed ''outer_wall_speed'' (max_print_speed m * (5 / 10))
          (Msg ''{} prints better at slower outer wall speeds'' [PStr (name m)]) (p, L) =
        Inr (p1, L1)"
    and 2: "cap_speed ''inner_wall_speed'' (max_print_speed m * (7 / 10))
          (Msg ''Reduced for {} quality'' [PStr (name m)]) (p1, L1) = Inr (p2, L2)"
    and 3: "cap_speed ''infill_speed'' (max_print_speed m)
          (Msg ''{} max speed is {}mm/s'' [PStr (name m), PFloat (max_print_speed m)])
          (p2, L2) = Inr (p3, L3)"
    and 4: "volumetric_rule m d (p3, L3) = Inr (p', L')"
    unfolding optimize_speeds_def ebind_eq_Inr by auto
  have f2: "p2 k = p1 k" if "k \<noteq> ''inner_wall_speed''" for k
    using writesD [OF cap_writes 2] that by simp
  have f3: "p3 k = p2 k" if "k \<noteq> ''infill_speed''" for k
    using writesD [OF cap_writes 3] that by simp
  have f4: "p' k = p3 k" if "k \<noteq> ''outer_wall_speed''" for k
    using writesD [OF vol_writes 4] that by simp
  have c: "0 \<le> max_print_speed m * (5 / 10)"
    using sane(1) by simp
  have outer: "quiet (cap_speed ''outer_wall_speed'' (max_print_speed m * (5 / 10))
          (Msg ''{} prints better at slower outer wall speeds'' [PStr (name m)])) q \<and>
      quiet (volumetric_rule m d) q"
    by (rule outer_speed_settle [OF 1 4 _ present c sane(2)])
      (simp_all add: f2 f3 f4 agree)
  have inner: "quiet (cap_speed ''inner_wall_speed'' (max_print_speed m * (7 / 10))
          (Msg ''Reduced for {} quality'' [PStr (name m)])) q"
    by (rule cap_settle [OF 2]) (simp add: agree f3 f4)
  have infill: "quiet (cap_speed ''infill_speed'' (max_print_speed m)
          (Msg ''{} max speed is {}mm/s'' [PStr (name m), PFloat (max_print_speed m)])) q"
    by (rule cap_settle [OF 3]) (simp add: agree f4)
  show ?thesis
    unfolding optimize_speeds_def [abs_def]
    by (intro quiet_ebind outer [THEN conjunct1] outer [THEN conjunct2] inner infill)
qed


lemma quiet_cong: "(\<And>L. f (q, L) = g (q, L)) \<Longrightarrow> quiet g q \<Longrightarrow> quiet f q"
  by (simp add: quiet_def)

lemma snap_writes: "writes (snap_rule key dflt wanted tol rsn) {key}"
  by (auto simp: writes_def snap_rule_def ebind_def num_def
      split: option.splits if_split_asm sum.splits)

lemma snap_result:
  assumes "snap_rule key dflt wanted tol rsn (p, L) = Inr (p', L')"
  shows "\<exists>x. num_of (pget p key dflt) = Some x \<and>
     (if tol < \<bar>x - wanted\<bar> then p' key = Some (PFloat wanted) else p' = p)"
  using assms
  by (auto simp: snap_rule_def ebind_def num_def split: option.splits if_split_asm sum.splits)

lemma snap_quiet:
  assumes "q key = Some (PFloat wanted) \<or>
     (\<exists>x. num_of (pget q key dflt) = Some x \<and> \<not> tol < \<bar>x - wanted\<bar>)"
  shows "quiet (snap_rule key dflt wanted tol rsn) q"
  unfolding quiet_def snap_rule_def
  using assms by (auto simp: num_def pget_def map_upd_triv)

lemma snap_settle:
  assumes run: "snap_rule key dflt wanted tol rsn (p, L) = Inr (p', L')"
    and agree: "q key = p' key"
  shows "quiet (snap_rule key dflt wanted tol rsn) q"
proof -
  from snap_result [OF run] obtain x where x: "num_of (pget p key dflt) = Some x"
    and r: "if tol < \<bar>x - wanted\<bar> then p' key = Some (PFloat wanted) else p' = p"
    by blast
  show ?thesis
  proof (cases "tol < \<bar>x - wanted\<bar>")
    case True
    with r agree show ?thesis by (intro snap_quiet) simp
  next
    case False
    with r agree have "pget q key dflt = pget p key dflt"
      by (simp add: pget_def)
    with x False show ?thesis by (intro snap_quiet) auto
  qed
qed

lemma flexible_writes: "writes (flexible_retraction_rule m old) {''retraction_length''}"
  by (auto simp: writes_def flexible_retraction_rule_def ebind_def num_def Let_def
      split: option.splits if_split_asm sum.splits)

lemma flexible_result:
  assumes "flexible_retraction_rule m old (p, L) = Inr (p', L')"
  shows "\<not> is_flexible m \<and> p' = p \<or>
     is_flexible m \<and> (\<exists>y. num_of (pget p ''retraction_length'' (PInt 0)) = Some y \<and>
        (if 1 < y then p' ''retraction_length'' = Some (PFloat (5 / 10)) else p' = p))"
  using assms
  by (auto simp: flexible_retraction_rule_def ebind_def num_def Let_def
      split: option.splits if_split_asm sum.splits)

lemma flexible_quiet:
  assumes "\<not> is_flexible m \<or>
     (\<exists>y. num_of (pget q ''retraction_length'' (PInt 0)) = Some y \<and> \<not> 1 < y)"
  shows "quiet (flexible_retraction_rule m old) q"
  unfolding quiet_def flexible_retraction_rule_def
  using assms by (auto simp: num_def Let_def)


lemma retraction_steps:
  assumes "optimize_retraction m (p, L) = Inr (p', L')"
  obtains p1 L1 p2 L2 where
    "snap_rule ''retraction_length'' (PFloat (8 / 10)) (retraction_length m) (2 / 10)
       (Msg ''Optimal retraction for {}'' [PStr (name m)]) (p, L) = Inr (p1, L1)"
    "snap_rule ''retraction_speed'' (PInt 30) (retraction_speed m) 5
       (Msg ''Optimal retraction speed for {}'' [PStr (name m)]) (p1, L1) = Inr (p2, L2)"
    "flexible_retraction_rule m (pget p ''retraction_length'' (PFloat (8 / 10))) (p2, L2) =
       Inr (p', L')"
  using assms unfolding optimize_retraction_def ebind_eq_Inr by auto

lemma retraction_writes:
  "writes (optimize_retraction m) {''retraction_length'', ''retraction_speed''}"
  unfolding writes_def
proof (intro allI impI)
  fix p L p' L' k
  assume run: "optimize_retraction m (p, L) = Inr (p', L')"
    and k: "k \<notin> {''retraction_length'', ''retraction_speed''}"
  from run obtain p1 L1 p2 L2 where
    1: "snap_rule ''retraction_length'' (PFloat (8 / 10)) (retraction_length m) (2 / 10)
       (Msg ''Optimal retraction for {}'' [PStr (name m)]) (p, L) = Inr (p1, L1)"
    and 2: "snap_rule ''retraction_speed'' (PInt 30) (retraction_speed m) 5
       (Msg ''Optimal retraction speed for {}'' [PStr (name m)]) (p1, L1) = Inr (p2, L2)"
    and 3: "flexible_retraction_rule m (pget p ''retraction_length'' (PFloat (8 / 10)))
       (p2, L2) = Inr (p', L')"
    by (rule retraction_steps)
  have "p1 k = p k" using writesD [OF snap_writes 1] k by simp
  moreover have "p2 k = p1 k" using writesD [OF snap_writes 2] k by simp
  moreover have "p' k = p2 k" using writesD [OF flexible_writes 3] k by simp
  ultimately show "p' k = p k" by simp
qed

lemma retraction_settle:
  assumes run: "optimize_retraction m (p, L) = Inr (p', L')"
    and flex_ok: "is_flexible m \<longrightarrow> \<bar>1 / 2 - retraction_length m\<bar> \<le> 2 / 10"
    and agree: "q ''retraction_length'' = p' ''retraction_length''"
      "q ''retraction_speed'' = p' ''retraction_speed''"
  shows "quiet (optimize_retraction m) q"
proof -
  from run obtain p1 L1 p2 L2 where
    1: "snap_rule ''retraction_length'' (PFloat (8 / 10)) (retraction_length m) (2 / 10)
       (Msg ''Optimal retraction for {}'' [PStr (name m)]) (p, L) = Inr (p1, L1)"
    and 2: "snap_rule ''retraction_speed'' (PInt 30) (retraction_speed m) 5
       (Msg ''Optimal retraction speed for {}'' [PStr (name m)]) (p1, L1) = Inr (p2, L2)"
    and 3: "flexible_retraction_rule m (pget p ''retraction_length'' (PFloat (8 / 10)))
       (p2, L2) = Inr (p', L')"
    by (rule retraction_steps)
  have len2: "p2 ''retraction_length'' = p1 ''retraction_length''"
    using writesD [OF snap_writes 2] by simp
  have speed': "p' ''retraction_speed'' = p2 ''retraction_speed''"
    using writesD [OF flexible_writes 3] by simp
  have speed: "quiet (snap_rule ''retraction_speed'' (PInt 30) (retraction_speed m) 5
       (Msg ''Optimal retraction speed for {}'' [PStr (name m)])) q"
    by (rule snap_settle [OF 2]) (simp add: agree speed')
  from snap_result [OF 1] obtain x where
    x: "num_of (pget p ''retraction_length'' (PFloat (8 / 10))) = Some x"
    and r1: "if 2 / 10 < \<bar>x - retraction_length m\<bar>
             then p1 ''retraction_length'' = Some (PFloat (retraction_length m)) else p1 = p"
    by blast
  have both: "quiet (snap_rule ''retraction_length'' (PFloat (8 / 10)) (retraction_length m)
       (2 / 10) (Msg ''Optimal retraction for {}'' [PStr (name m)])) q \<and>
     quiet (flexible_retraction_rule m old) q" for old
  proof -
    from flexible_result [OF 3] consider
      (rigid) "\<not> is_flexible m" "p' = p2"
      | (fired) y where "is_flexible m"
          "num_of (pget p2 ''retraction_length'' (PInt 0)) = Some y" "1 < y"
          "p' ''retraction_length'' = Some (PFloat (5 / 10))"
      | (kept) y where "is_flexible m"
          "num_of (pget p2 ''retraction_length'' (PInt 0)) = Some y" "\<not> 1 < y" "p' = p2"
      by (auto split: if_split_asm)
    then show ?thesis
    proof cases
      case rigid
      then have q1: "q ''retraction_length'' = p1 ''retraction_length''"
        using agree len2 by simp
      have "quiet (snap_rule ''retraction_length'' (PFloat (8 / 10)) (retraction_length m)
         (2 / 10) (Msg ''Optimal retraction for {}'' [PStr (name m)])) q"
        by (rule snap_settle [OF 1]) (rule q1)
      moreover have "quiet (flexible_retraction_rule m old) q"
        using rigid by (intro flexible_quiet) simp
      ultimately show ?thesis ..
    next
      case fired
      then have q5: "q ''retraction_length'' = Some (PFloat (5 / 10))"
        using agree by simp
      have "\<bar>1 / 2 - retraction_length m\<bar> \<le> 2 / 10"
        using flex_ok fired by simp
      then have "\<exists>x. num_of (pget q ''retraction_length'' (PFloat (8 / 10))) = Some x \<and>
          \<not> 2 / 10 < \<bar>x - retraction_length m\<bar>"
        using q5 by (intro exI [of _ "1 / 2"]) (simp add: pget_def)
      then have "quiet (snap_rule ''retraction_length'' (PFloat (8 / 10)) (retraction_length m)
         (2 / 10) (Msg ''Optimal retraction for {}'' [PStr (name m)])) q"
        by (intro snap_quiet disjI2)
      moreover have "\<exists>y. num_of (pget q ''retraction_length'' (PInt 0)) = Some y \<and> \<not> 1 < y"
        using q5 by (intro exI [of _ "1 / 2"]) (simp add: pget_def)
      then have "quiet (flexible_retraction_rule m old) q"
        by (intro flexible_quiet disjI2)
      ultimately show ?thesis ..
    next
      case kept
      then have q1: "q ''retraction_length'' = p1 ''retraction_length''"
        and q2: "q ''retraction_length'' = p2 ''retraction_length''"
        using agree len2 by simp_all
      have "quiet (snap_rule ''retraction_length'' (PFloat (8 / 10)) (retraction_length m)
         (2 / 10) (Msg ''Optimal retraction for {}'' [PStr (name m)])) q"
        by (rule snap_settle [OF 1]) (rule q1)
      moreover have "pget q ''retraction_length'' (PInt 0) = pget p2 ''retraction_length'' (PInt 0)"
        using q2 by (simp add: pget_def)
      then have "quiet (flexible_retraction_rule m old) q"
        using kept by (intro flexible_quiet) auto
      ultimately show ?thesis ..
    qed
  qed
  have "quiet (\<lambda>st. ebind
      (snap_rule ''retraction_length'' (PFloat (8 / 10)) (retraction_length m) (2 / 10)
         (Msg ''Optimal retraction for {}'' [PStr (name m)]) st) (\<lambda>st1.
       ebind (snap_rule ''retraction_speed'' (PInt 30) (retraction_speed m) 5
         (Msg ''Optimal retraction speed for {}'' [PStr (name m)]) st1)
         (flexible_retraction_rule m (pget q ''retraction_length'' (PFloat (8 / 10)))))) q"
    by (intro quiet_ebind both [THEN conjunct1] both [THEN conjunct2] speed)
  then show ?thesis
    by (rule quiet_cong [rotated]) (simp add: optimize_retraction_def)
qed


lemma cooling_writes: "writes (optimize_cooling m) {''fan_speed'', ''fan_min_layer_time''}"
  by (auto simp: writes_def optimize_cooling_def ebind_def num_def Let_def py_min_def
      split: option.splits if_split_asm sum.splits)

lemma cooling_result:
  assumes "optimize_cooling m (p, L) = Inr (p', L')"
  shows "(filament_type m = PLA \<longrightarrow>
       (\<exists>x. num_of (pget p' ''fan_speed'' (PInt 100)) = Some x \<and> \<not> x < 80)) \<and>
     (filament_type m = PETG \<longrightarrow>
       (\<exists>x. num_of (pget p' ''fan_speed'' (PInt 100)) = Some x \<and> \<not> 60 < x)) \<and>
     (filament_type m = PC \<longrightarrow>
       (\<exists>x. num_of (pget p' ''fan_speed'' (PInt 100)) = Some x \<and> \<not> 30 < x)) \<and>
     (filament_type m = TPU \<or> filament_type m = TPE \<longrightarrow>
       (\<exists>v x. p' ''fan_speed'' = Some v \<and> num_of v = Some x \<and> \<not> 50 < x))"
  using assms
  by (auto simp: optimize_cooling_def ebind_def num_def Let_def py_min_def pget_def
      split: option.splits if_split_asm sum.splits)

lemma cooling_settle:
  assumes run: "optimize_cooling m (p, L) = Inr (p', L')"
    and agree: "q ''fan_speed'' = p' ''fan_speed''"
  shows "quiet (optimize_cooling m) q"
proof -
  have same: "pget q ''fan_speed'' (PInt 100) = pget p' ''fan_speed'' (PInt 100)"
    using agree by (simp add: pget_def)
  note r = cooling_result [OF run]
  consider (pla) "filament_type m = PLA" | (petg) "filament_type m = PETG"
    | (pc) "filament_type m = PC" | (tpu) "filament_type m = TPU \<or> filament_type m = TPE"
    | (other) "filament_type m \<notin> {PLA, PETG, PC, TPU, TPE}"
    by auto
  then show ?thesis
  proof cases
    case pla
    with r same show ?thesis
      unfolding quiet_def optimize_cooling_def by (auto simp: num_def Let_def)
  next
    case petg
    with r same show ?thesis
      unfolding quiet_def optimize_cooling_def by (auto simp: num_def Let_def)
  next
    case pc
    with r same show ?thesis
      unfolding quiet_def optimize_cooling_def by (auto simp: num_def Let_def)
  next
    case tpu
    with r obtain v x where "p' ''fan_speed'' = Some v" "num_of v = Some x" "\<not> 50 < x"
      by blast
    with agree have v: "q ''fan_speed'' = Some v" "num_of v = Some x" "\<not> 50 < x"
      by simp_all
    then have "py_eq v v"
      by (simp add: py_eq_refl_num)
    with v tpu show ?thesis
      unfolding quiet_def optimize_cooling_def
      by (auto simp: num_def Let_def py_min_def pget_def map_upd_triv)
  next
    case other
    then show ?thesis
      unfolding quiet_def optimize_cooling_def by (auto simp: Let_def)
  qed
qed


lemma py_round_close: "\<bar>of_int (py_round r) - r\<bar> \<le> 1 / 2"
proof -
  have "of_int \<lfloor>r\<rfloor> \<le> r" "r < of_int \<lfloor>r\<rfloor> + 1"
    by linarith+
  then show ?thesis
    by (auto simp: py_round_def Let_def)
qed

lemma round2_close: "\<bar>round2 x - x\<bar> \<le> 1 / 200"
proof -
  have "\<bar>of_int (py_round (x * 100)) - x * 100\<bar> \<le> 1 / 2"
    by (rule py_round_close)
  then show ?thesis
    by (simp add: round2_def field_simps abs_le_iff)
qed

lemma brim_writes: "writes (brim_rule m) {''brim_width''}"
  by (auto simp: writes_def brim_rule_def ebind_def num_def Let_def
      split: option.splits if_split_asm sum.splits)

lemma brim_settle:
  assumes run: "brim_rule m (p, L) = Inr (p', L')"
    and agree: "q ''brim_width'' = p' ''brim_width''"
  shows "quiet (brim_rule m) q"
proof -
  have same: "pget q ''brim_width'' (PInt 5) = pget p' ''brim_width'' (PInt 5)"
    using agree by (simp add: pget_def)
  from run have "filament_type m = PC \<or> filament_type m = ABS \<longrightarrow>
      (\<exists>x. num_of (pget p' ''brim_width'' (PInt 5)) = Some x \<and> \<not> x < 8)"
    by (auto simp: brim_rule_def ebind_def num_def Let_def pget_def
        split: option.splits if_split_asm sum.splits)
  with same show ?thesis
    unfolding quiet_def brim_rule_def by (auto simp: num_def Let_def)
qed

lemma first_layer_speed_writes: "writes first_layer_speed_rule {''initial_layer_speed''}"
  by (auto simp: writes_def first_layer_speed_rule_def ebind_def num_def Let_def
      split: option.splits if_split_asm sum.splits)

lemma first_layer_speed_settle:
  assumes run: "first_layer_speed_rule (p, L) = Inr (p', L')"
    and agree: "q ''initial_layer_speed'' = p' ''initial_layer_speed''"
  shows "quiet first_layer_speed_rule q"
proof -
  have same: "pget q ''initial_layer_speed'' (PInt 30) = pget p' ''initial_layer_speed'' (PInt 30)"
    using agree by (simp add: pget_def)
  from run have "\<exists>x. num_of (pget p' ''initial_layer_speed'' (PInt 30)) = Some x \<and> \<not> 25 < x"
    by (auto simp: first_layer_speed_rule_def ebind_def num_def Let_def pget_def
        split: option.splits if_split_asm sum.splits)
  with same show ?thesis
    unfolding quiet_def first_layer_speed_rule_def by (auto simp: num_def Let_def)
qed

lemma first_layer_height_writes: "writes first_layer_height_rule {''initial_layer_height''}"
  by (auto simp: writes_def first_layer_height_rule_def ebind_def num_def Let_def
      split: option.splits if_split_asm sum.splits)

lemma first_layer_height_result:
  assumes "first_layer_height_rule (p, L) = Inr (p', L')"
  shows "\<exists>lh h. num_of (pget p ''layer_height'' (PFloat (2 / 10))) = Some lh \<and>
      num_of (pget p ''initial_layer_height'' (PFloat (2 / 10))) = Some h \<and>
      (if 2 / 100 < \<bar>h - lh * (12 / 10)\<bar>
       then p' = p(''initial_layer_height'' \<mapsto> PFloat (round2 (lh * (12 / 10))))
       else p' = p)"
  using assms
  by (auto simp: first_layer_height_rule_def ebind_def num_def Let_def
      split: option.splits if_split_asm sum.splits)

lemma first_layer_height_settle:
  assumes run: "first_layer_height_rule (p, L) = Inr (p', L')"
    and agree: "q ''initial_layer_height'' = p' ''initial_layer_height''"
      "q ''layer_height'' = p' ''layer_height''"
  shows "quiet first_layer_height_rule q"
proof -
  have same: "pget q ''initial_layer_height'' (PFloat (2 / 10)) =
      pget p' ''initial_layer_height'' (PFloat (2 / 10))"
    "pget q ''layer_height'' (PFloat (2 / 10)) = pget p' ''layer_height'' (PFloat (2 / 10))"
    using agree by (simp_all add: pget_def)
  from first_layer_height_result [OF run] obtain lh h where
    lh: "num_of (pget p ''layer_height'' (PFloat (2 / 10))) = Some lh"
    and h: "num_of (pget p ''initial_layer_height'' (PFloat (2 / 10))) = Some h"
    and r: "if 2 / 100 < \<bar>h - lh * (12 / 10)\<bar>
       then p' = p(''initial_layer_height'' \<mapsto> PFloat (round2 (lh * (12 / 10))))
       else p' = p"
    by blast
  have lh': "num_of (pget p' ''layer_height'' (PFloat (2 / 10))) = Some lh"
    using lh r by (auto simp: pget_def split: if_split_asm)
  have "\<exists>h'. num_of (pget p' ''initial_layer_height'' (PFloat (2 / 10))) = Some h' \<and>
      \<not> 2 / 100 < \<bar>h' - lh * (12 / 10)\<bar>"
  proof (cases "2 / 100 < \<bar>h - lh * (12 / 10)\<bar>")
    case True
    with r have "pget p' ''initial_layer_height'' (PFloat (2 / 10)) =
        PFloat (round2 (lh * (12 / 10)))"
      by (simp add: pget_def)
    moreover have "\<not> 2 / 100 < \<bar>round2 (lh * (12 / 10)) - lh * (12 / 10)\<bar>"
      using round2_close [of "lh * (12 / 10)"] by linarith
    ultimately show ?thesis by simp
  next
    case False
    with r h show ?thesis by auto
  qed
  then obtain h' where
    h': "num_of (pget p' ''initial_layer_height'' (PFloat (2 / 10))) = Some h'"
      "\<not> 2 / 100 < \<bar>h' - lh * (12 / 10)\<bar>"
    by blast
  show ?thesis
    unfolding quiet_def first_layer_height_rule_def
    using lh' h' same by (simp add: num_def Let_def)
qed


lemma adhesion_writes:
  "writes (optimize_adhesion m) {''brim_width'', ''initial_layer_speed'', ''initial_layer_height''}"
proof -
  note a = writes_ebind [OF first_layer_speed_writes first_layer_height_writes]
  note b = writes_ebind [OF brim_writes a]
  show ?thesis
    unfolding optimize_adhesion_def [abs_def]
    by (rule writes_mono [OF b]) auto
qed

lemma adhesion_settle:
  assumes run: "optimize_adhesion m (p, L) = Inr (p', L')"
    and agree: "q ''brim_width'' = p' ''brim_width''"
      "q ''initial_layer_speed'' = p' ''initial_layer_speed''"
      "q ''initial_layer_height'' = p' ''initial_layer_height''"
      "q ''layer_height'' = p' ''layer_height''"
  shows "quiet (optimize_adhesion m) q"
proof -
  from run obtain p1 L1 p2 L2 where
    1: "brim_rule m (p, L) = Inr (p1, L1)"
    and 2: "first_layer_speed_rule (p1, L1) = Inr (p2, L2)"
    and 3: "first_layer_height_rule (p2, L2) = Inr (p', L')"
    unfolding optimize_adhesion_def ebind_eq_Inr by auto
  have f2: "p2 k = p1 k" if "k \<noteq> ''initial_layer_speed''" for k
    using writesD [OF first_layer_speed_writes 2] that by simp
  have f3: "p' k = p2 k" if "k \<noteq> ''initial_layer_height''" for k
    using writesD [OF first_layer_height_writes 3] that by simp
  have a: "quiet (brim_rule m) q"
    by (rule brim_settle [OF 1]) (simp add: agree f2 f3)
  have b: "quiet first_layer_speed_rule q"
    by (rule first_layer_speed_settle [OF 2]) (simp add: agree f3)
  have c: "quiet first_layer_height_rule q"
    by (rule first_layer_height_settle [OF 3]) (simp_all add: agree)
  show ?thesis
    unfolding optimize_adhesion_def [abs_def]
    by (intro quiet_ebind a b c)
qed

lemma structure_writes: "writes (optimize_structure m) {''wall_loops''}"
  by (auto simp: writes_def optimize_structure_def ebind_def num_def Let_def
      split: option.splits if_split_asm sum.splits)

lemma structure_result:
  assumes "optimize_structure m (p, L) = Inr (p', L')"
  shows "is_flexible m \<longrightarrow>
     (\<exists>w i. num_of (pget p' ''wall_loops'' (PInt 3)) = Some w \<and> \<not> w < 3 \<and>
        num_of (pget p' ''sparse_infill_density'' (PInt 20)) = Some i)"
  using assms
  by (auto simp: optimize_structure_def ebind_def num_def Let_def pget_def
      split: option.splits if_split_asm sum.splits)

lemma structure_settle:
  assumes run: "optimize_structure m (p, L) = Inr (p', L')"
    and agree: "q ''wall_loops'' = p' ''wall_loops''"
      "q ''sparse_infill_density'' = p' ''sparse_infill_density''"
  shows "quiet (optimize_structure m) q"
proof -
  have same: "pget q ''wall_loops'' (PInt 3) = pget p' ''wall_loops'' (PInt 3)"
    "pget q ''sparse_infill_density'' (PInt 20) = pget p' ''sparse_infill_density'' (PInt 20)"
    using agree by (simp_all add: pget_def)
  from structure_result [OF run] same show ?thesis
    unfolding quiet_def optimize_structure_def by (auto simp: num_def Let_def)
qed

lemma specifics_writes:
  assumes "filament_type m \<noteq> PC" "18 \<le> ambient"
  shows "writes (apply_material_specifics m ambient) {''z_hop_enabled'', ''z_hop_height''}"
  using assms
  by (auto simp: writes_def apply_material_specifics_def ams_rule_def draft_shield_rule_def
      cold_room_rule_def z_hop_rule_def Let_def split: if_split_asm)

lemma specifics_settle:
  assumes run: "apply_material_specifics m ambient (p, L) = Inr (p', L')"
    and hyps: "filament_type m \<noteq> PC" "18 \<le> ambient"
    and agree: "q ''z_hop_enabled'' = p' ''z_hop_enabled''"
  shows "quiet (apply_material_specifics m ambient) q"
proof -
  have same: "pget q ''z_hop_enabled'' (PBool False) = pget p' ''z_hop_enabled'' (PBool False)"
    using agree by (simp add: pget_def)
  from run hyps have "filament_type m = PETG \<longrightarrow>
      truthy (pget p' ''z_hop_enabled'' (PBool False))"
    by (auto simp: apply_material_specifics_def ams_rule_def draft_shield_rule_def
        cold_room_rule_def z_hop_rule_def Let_def pget_def split: if_split_asm)
  with same hyps show ?thesis
    unfolding quiet_def
    by (auto simp: apply_material_specifics_def ams_rule_def draft_shield_rule_def
        cold_room_rule_def z_hop_rule_def Let_def)
qed


lemma apply_rules_quiet:
  assumes run: "apply_rules m d ambient (p, L) = Inr (p', L')"
    and ok: "profile_ok m" and amb: "18 \<le> ambient"
    and present: "p ''outer_wall_speed'' \<noteq> None"
  shows "quiet (apply_rules m d ambient) p'"
proof -
  from run obtain p1 L1 p2 L2 p3 L3 p4 L4 p5 L5 p6 L6 where
    1: "optimize_temperatures m (p, L) = Inr (p1, L1)"
    and 2: "optimize_speeds m d (p1, L1) = Inr (p2, L2)"
    and 3: "optimize_retraction m (p2, L2) = Inr (p3, L3)"
    and 4: "optimize_cooling m (p3, L3) = Inr (p4, L4)"
    and 5: "optimize_adhesion m (p4, L4) = Inr (p5, L5)"
    and 6: "optimize_structure m (p5, L5) = Inr (p6, L6)"
    and 7: "apply_material_specifics m ambient (p6, L6) = Inr (p', L')"
    unfolding apply_rules_def ebind_eq_Inr by auto
  from ok have pc: "filament_type m \<noteq> PC" and speed: "0 \<le> max_print_speed m"
    and flow: "0 \<le> max_volumetric_flow m"
    and flex: "is_flexible m \<longrightarrow> \<bar>1 / 2 - retraction_length m\<bar> \<le> 2 / 10"
    by (simp_all add: profile_ok_def)
  have f1: "p1 k = p k" if "k \<notin> {''nozzle_temp'', ''bed_temp''}" for k
    using writesD [OF temperatures_writes 1 that] .
  have f2: "p2 k = p1 k"
    if "k \<notin> {''outer_wall_speed'', ''inner_wall_speed'', ''infill_speed''}" for k
    using writesD [OF speeds_writes 2 that] .
  have f3: "p3 k = p2 k" if "k \<notin> {''retraction_length'', ''retraction_speed''}" for k
    using writesD [OF retraction_writes 3 that] .
  have f4: "p4 k = p3 k" if "k \<notin> {''fan_speed'', ''fan_min_layer_time''}" for k
    using writesD [OF cooling_writes 4 that] .
  have f5: "p5 k = p4 k"
    if "k \<notin> {''brim_width'', ''initial_layer_speed'', ''initial_layer_height''}" for k
    using writesD [OF adhesion_writes 5 that] .
  have f6: "p6 k = p5 k" if "k \<notin> {''wall_loops''}" for k
    using writesD [OF structure_writes 6 that] .
  have f7: "p' k = p6 k" if "k \<notin> {''z_hop_enabled'', ''z_hop_height''}" for k
    using writesD [OF specifics_writes [OF pc amb] 7 that] .
  have q1: "quiet (optimize_temperatures m) p'"
    by (rule temperatures_settle [OF 1]) (simp_all add: f2 f3 f4 f5 f6 f7)
  have "p1 ''outer_wall_speed'' \<noteq> None"
    using present by (simp add: f1)
  then have q2: "quiet (optimize_speeds m d) p'"
    by (rule speeds_settle [OF 2 _ speed flow]) (simp_all add: f3 f4 f5 f6 f7)
  have q3: "quiet (optimize_retraction m) p'"
    by (rule retraction_settle [OF 3 flex]) (simp_all add: f4 f5 f6 f7)
  have q4: "quiet (optimize_cooling m) p'"
    by (rule cooling_settle [OF 4]) (simp add: f5 f6 f7)
  have q5: "quiet (optimize_adhesion m) p'"
    by (rule adhesion_settle [OF 5]) (simp_all add: f6 f7)
  have q6: "quiet (optimize_structure m) p'"
    by (rule structure_settle [OF 6]) (simp_all add: f7)
  have q7: "quiet (apply_material_specifics m ambient) p'"
    by (rule specifics_settle [OF 7 pc amb]) simp
  show ?thesis
    unfolding apply_rules_def [abs_def]
    by (intro quiet_ebind q1 q2 q3 q4 q5 q6 q7)
qed

text \<open>
  C1, amended: for an ambient temperature of at least 18 degrees, a material that is
  unknown or has a profile as described by \<open>profile_ok\<close> (not polycarbonate, limits not
  negative, a flexible filament's retraction length within 0.2 mm of 0.5 mm) and
  parameters that hold an outer wall speed, if the optimizer returns a result, then
  running it on the optimized parameters returns the same parameters and an empty
  change log.
\<close>

theorem C1_optimizer_idempotent:
  assumes amb: "18 \<le> ambient"
    and prof: "\<forall>m. profiles material = Some m \<longrightarrow> profile_ok m"
    and present: "p ''outer_wall_speed'' \<noteq> None"
    and run: "optimize_for_material profiles p material d ambient = Inr r1"
  shows "\<exists>r2. optimize_for_material profiles (optimized_params r1) material d ambient = Inr r2 \<and>
     optimized_params r2 = optimized_params r1 \<and> changes_made r2 = []"
proof (cases "profiles material")
  case None
  with run show ?thesis
    by (auto simp: optimize_for_material_def)
next
  case (Some m)
  with run obtain q L where rules: "apply_rules m d ambient (p, empty_log) = Inr (q, L)"
    and r1: "optimized_params r1 = q"
    by (auto simp: optimize_for_material_def ebind_eq_Inr)
  from prof Some have ok: "profile_ok m"
    by simp
  have "quiet (apply_rules m d ambient) q"
    by (rule apply_rules_quiet [OF rules ok amb present])
  then obtain L' where "apply_rules m d ambient (q, empty_log) = Inr (q, L')"
    and "changes L' = changes empty_log"
    unfolding quiet_def by blast
  then show ?thesis
    using Some r1 by (simp add: optimize_for_material_def empty_log_def)
qed

lemmas rule_defs = optimize_temperatures_def nozzle_temperature_rule_def bed_temperature_rule_def
  optimize_speeds_def cap_speed_def volumetric_rule_def optimize_retraction_def snap_rule_def
  flexible_retraction_rule_def optimize_cooling_def optimize_adhesion_def brim_rule_def
  first_layer_speed_rule_def first_layer_height_rule_def optimize_structure_def
  apply_material_specifics_def ams_rule_def draft_shield_rule_def cold_room_rule_def z_hop_rule_def
  record_change_def add_note_def add_warning_def num_def pget_def py_min_def py_add_def
  is_flexible_def filament_type_def trunc_def round2_def py_round_def Let_def apply_rules_def
  empty_log_def

lemma profile_bambu_pla: "get_filament_profile ''bambu_pla'' = Some BAMBU_PLA"
  by (simp add: get_filament_profile_def FILAMENT_PROFILES_def profile_key_def lower_char_def)

lemma profile_prusa_pc: "get_filament_profile ''prusa_pc'' = Some PRUSA_PC_BLEND"
  by (simp add: get_filament_profile_def FILAMENT_PROFILES_def profile_key_def lower_char_def)

lemma profile_tpu: "get_filament_profile ''tpu'' = Some GENERIC_TPU_95A"
  by (simp add: get_filament_profile_def FILAMENT_PROFILES_def profile_key_def lower_char_def)

theorem C1_optimizer_idempotent_witness:
  "(18::real) \<le> 22 \<and> get_filament_profile ''bambu_pla'' = Some BAMBU_PLA \<and>
   profile_ok BAMBU_PLA \<and> example_opt_params ''outer_wall_speed'' \<noteq> None \<and>
   (\<exists>r1 r2.
      optimize_for_material get_filament_profile example_opt_params ''bambu_pla'' (4 / 10) 22 =
        Inr r1 \<and>
      optimized_params r1 ''outer_wall_speed'' = Some (PInt 150) \<and>
      optimized_params r1 ''nozzle_temp'' = Some (PInt 220) \<and>
      optimize_for_material get_filament_profile (optimized_params r1) ''bambu_pla'' (4 / 10) 22 =
        Inr r2 \<and>
      optimized_params r2 = optimized_params r1 \<and> changes_made r2 = [])"
proof -
  have amb: "(18::real) \<le> 22" by simp
  have ok: "profile_ok BAMBU_PLA"
    by (simp add: profile_ok_def BAMBU_PLA_def filament_type_def is_flexible_def)
  have prof: "\<forall>m. get_filament_profile ''bambu_pla'' = Some m \<longrightarrow> profile_ok m"
    using ok by (simp add: profile_bambu_pla)
  have present: "example_opt_params ''outer_wall_speed'' \<noteq> None"
    by (simp add: example_opt_params_def)
  have "\<exists>r1. optimize_for_material get_filament_profile example_opt_params ''bambu_pla''
      (4 / 10) 22 = Inr r1 \<and>
      optimized_params r1 ''outer_wall_speed'' = Some (PInt 150) \<and>
      optimized_params r1 ''nozzle_temp'' = Some (PInt 220)"
    by (simp add: optimize_for_material_def profile_bambu_pla example_opt_params_def rule_defs
        BAMBU_PLA_def)
  then obtain r1 where run: "optimize_for_material get_filament_profile example_opt_params
      ''bambu_pla'' (4 / 10) 22 = Inr r1"
    and vals: "optimized_params r1 ''outer_wall_speed'' = Some (PInt 150)"
      "optimized_params r1 ''nozzle_temp'' = Some (PInt 220)"
    by blast
  from C1_optimizer_idempotent [OF amb prof present run] run vals amb ok present
  show ?thesis
    by (auto simp: profile_bambu_pla)
qed

text \<open>
  C1, as stated: the second run never changes anything. For polycarbonate the second
  change log holds the draft shield entry again; in a cold room (15 degrees) each run
  raises the bed temperature by 5 degrees (55, 60, 65); and for TPU without an outer wall
  speed the first run sets 32 mm/s from the flow limit and the second run caps it at
  20 mm/s.
\<close>

theorem C1_second_run_changes:
  "changes_after (optimize_twice get_filament_profile [''outer_wall_speed'' \<mapsto> PInt 50]
      ''prusa_pc'' (4 / 10) 22) =
     Some [\<lparr>ch_parameter = ''enable_draft_shield'', old_value = PBool False,
       new_value = PBool True,
       ch_reason = Msg ''Draft shield helps PC on open frame printers'' []\<rparr>] \<and>
   param_after (optimize_for_material get_filament_profile
      [''outer_wall_speed'' \<mapsto> PInt 50, ''bed_temp'' \<mapsto> PInt 55] ''bambu_pla'' (4 / 10) 15)
      ''bed_temp'' = Some (PInt 60) \<and>
   param_after (optimize_twice get_filament_profile
      [''outer_wall_speed'' \<mapsto> PInt 50, ''bed_temp'' \<mapsto> PInt 55] ''bambu_pla'' (4 / 10) 15)
      ''bed_temp'' = Some (PInt 65) \<and>
   param_after (optimize_for_material get_filament_profile Map.empty ''tpu'' (4 / 10) 22)
      ''outer_wall_speed'' = Some (PInt 32) \<and>
   param_after (optimize_twice get_filament_profile Map.empty ''tpu'' (4 / 10) 22)
      ''outer_wall_speed'' = Some (PInt 20)"
proof -
  have pc: "changes_after (optimize_twice get_filament_profile [''outer_wall_speed'' \<mapsto> PInt 50]
      ''prusa_pc'' (4 / 10) 22) =
     Some [\<lparr>ch_parameter = ''enable_draft_shield'', old_value = PBool False,
       new_value = PBool True,
       ch_reason = Msg ''Draft shield helps PC on open frame printers'' []\<rparr>]"
    by (simp add: changes_after_def optimize_twice_def optimize_for_material_def
        profile_prusa_pc rule_defs PRUSA_PC_BLEND_def)
  have cold: "param_after (optimize_for_material get_filament_profile
      [''outer_wall_speed'' \<mapsto> PInt 50, ''bed_temp'' \<mapsto> PInt 55] ''bambu_pla'' (4 / 10) 15)
      ''bed_temp'' = Some (PInt 60)"
    "param_after (optimize_twice get_filament_profile
      [''outer_wall_speed'' \<mapsto> PInt 50, ''bed_temp'' \<mapsto> PInt 55] ''bambu_pla'' (4 / 10) 15)
      ''bed_temp'' = Some (PInt 65)"
    by (simp_all add: param_after_def optimize_twice_def optimize_for_material_def
        profile_bambu_pla rule_defs BAMBU_PLA_def)
  have tpu: "param_after (optimize_for_material get_filament_profile Map.empty ''tpu'' (4 / 10) 22)
      ''outer_wall_speed'' = Some (PInt 32)"
    "param_after (optimize_twice get_filament_profile Map.empty ''tpu'' (4 / 10) 22)
      ''outer_wall_speed'' = Some (PInt 20)"
    by (simp_all add: param_after_def optimize_twice_def optimize_for_material_def
        profile_tpu rule_defs GENERIC_TPU_95A_def)
  from pc cold tpu show ?thesis
    by (intro conjI)
qed

subsection \<open>Optimizer: temperatures\<close>

lemma nozzle_temperature_in_range:
  assumes "nozzle_temperature_rule m (p, L) = Inr (p', L')"
    and "min_temp (nozzle_temp m) \<le> optimal (nozzle_temp m)"
    and "optimal (nozzle_temp m) \<le> max_temp (nozzle_temp m)"
  shows "\<exists>v x. p' ''nozzle_temp'' = Some v \<and> num_of v = Some x \<and>
     of_int (min_temp (nozzle_temp m)) \<le> x \<and> x \<le> of_int (max_temp (nozzle_temp m))"
  using assms
  by (auto simp: nozzle_temperature_rule_def ebind_def num_def
      split: option.splits if_split_asm sum.splits)

text \<open>
  C2: the bed temperature is clamped into the filament's range like the nozzle
  temperature. For the PLA profile, whose bed range is 45 to 65 degrees, a bed temperature
  of 100 degrees is returned as it is and no change is recorded: the rule for the bed
  tests the minimum only, where the rule for the nozzle tests both ends.
\<close>

theorem C2_bed_above_max_unchanged:
  "max_temp (bed_temp BAMBU_PLA) = 65 \<and>
   optimize_temperatures BAMBU_PLA
     ([''nozzle_temp'' \<mapsto> PInt 220, ''bed_temp'' \<mapsto> PInt 100], empty_log) =
     Inr ([''nozzle_temp'' \<mapsto> PInt 220, ''bed_temp'' \<mapsto> PInt 100], empty_log) \<and>
   param_after (optimize_for_material get_filament_profile
      [''nozzle_temp'' \<mapsto> PInt 220, ''bed_temp'' \<mapsto> PInt 100] ''bambu_pla'' (4 / 10) 22)
      ''bed_temp'' = Some (PInt 100)"
  by (simp add: param_after_def optimize_for_material_def profile_bambu_pla rule_defs
      BAMBU_PLA_def)

subsection \<open>Guided workflow\<close>

lemma approved_not_waiting [simp]: "\<not> waiting (approved ans cp)"
  by (simp add: waiting_def approved_def split: option.splits)




lemma choose_material_keeps [simp]:
  "checkpoints (choose_material ans st) = checkpoints st"
  by (simp add: choose_material_def split: option.splits)
























end
